theory Spec2Isabelle
  imports Complex_Main "HOL-Library.Word" "HOL-Library.Sublist" "HOL-Library.Multiset"
begin

unbundle bit_operations_syntax

section \<open>JavaScript values and errors\<close>

text \<open>
  The program is JavaScript. A thrown exception is a value of type \<open>error\<close> carrying
  its message; a function that may throw returns \<open>error + 'a\<close> with \<open>Inl\<close> for the throw.
  Numbers are modelled as mathematical reals (no rounding of arithmetic; \<open>NaN\<close> and the
  infinities appear only where a value is converted to a number); strings are byte lists,
  as \<open>hash.update\<close> sees them after UTF-8 encoding.
\<close>

datatype error = Error string | TypeError string | RangeError string

fun message :: "error \<Rightarrow> string" where
  "message (Error m) = m"
| "message (TypeError m) = m"
| "message (RangeError m) = m"

text \<open>Values as they come out of the cache file (msgpack or JSON) or of a backend.\<close>

datatype jsval =
    JUndefined
  | JNull
  | JBool bool
  | JNum real
  | JStr string
  | JArr "jsval list"
  | JObj "(string \<times> jsval) list"

text \<open>Truthiness, as \<open>!x\<close>, \<open>x || y\<close> and \<open>if (x)\<close> test it.\<close>

fun truthy :: "jsval \<Rightarrow> bool" where
  "truthy JUndefined = False"
| "truthy JNull = False"
| "truthy (JBool b) = b"
| "truthy (JNum r) = (r \<noteq> 0)"
| "truthy (JStr s) = (s \<noteq> [])"
| "truthy (JArr xs) = True"
| "truthy (JObj kv) = True"

text \<open>
  Property read \<open>v.key\<close>: a \<open>TypeError\<close> on \<open>undefined\<close> and \<open>null\<close>; the own property of
  an object; the \<open>length\<close> of an array or a string; \<open>undefined\<close> for anything else.
\<close>

fun getProp :: "jsval \<Rightarrow> string \<Rightarrow> error + jsval" where
  "getProp JUndefined k = Inl (TypeError (''Cannot read properties of undefined (reading '' @ k @ '')''))"
| "getProp JNull k = Inl (TypeError (''Cannot read properties of null (reading '' @ k @ '')''))"
| "getProp (JObj kv) k = Inr (case map_of kv k of Some v \<Rightarrow> v | None \<Rightarrow> JUndefined)"
| "getProp (JArr xs) k = Inr (if k = ''length'' then JNum (real (length xs)) else JUndefined)"
| "getProp (JStr s) k = Inr (if k = ''length'' then JNum (real (length s)) else JUndefined)"
| "getProp (JBool b) k = Inr JUndefined"
| "getProp (JNum r) k = Inr JUndefined"



text \<open>\<open>try { body } catch (error) { handler }\<close>\<close>

definition tryCatch :: "error + 'a \<Rightarrow> (error \<Rightarrow> error + 'a) \<Rightarrow> error + 'a" where
  "tryCatch body handler = (case body of Inl e \<Rightarrow> handler e | Inr v \<Rightarrow> Inr v)"

text \<open>Sequencing of computations that may throw.\<close>

definition bindE :: "error + 'a \<Rightarrow> ('a \<Rightarrow> error + 'b) \<Rightarrow> error + 'b" where
  "bindE m f = (case m of Inl e \<Rightarrow> Inl e | Inr v \<Rightarrow> f v)"

section \<open>SHA-1 (\<open>crypto.createHash('sha1')\<close>)\<close>

text \<open>
  Node's \<open>crypto\<close> module is a library, not code of this repository. The digest it computes
  is FIPS 180-4 SHA-1; \<open>hash.update\<close> appends to the message, \<open>digest('hex')\<close> pads, runs
  the compression function over the 64-byte blocks and prints the five state words in
  lower-case hexadecimal.
\<close>

type_synonym w32 = "32 word"

definition sha1_pad :: "nat list \<Rightarrow> nat list" where
  "sha1_pad bs =
     (let l = length bs;
          k = (119 - l mod 64) mod 64;
          bits = (of_nat (8 * l) :: 64 word)
      in bs @ [128] @ replicate k 0 @
         map (\<lambda>i. unat (take_bit 8 (drop_bit (8 * (7 - i)) bits))) [0..<8])"

definition be32 :: "nat list \<Rightarrow> w32" where
  "be32 bs = foldl (\<lambda>acc b. push_bit 8 acc + of_nat b) 0 (take 4 bs)"

fun chunk :: "nat \<Rightarrow> nat \<Rightarrow> 'a list \<Rightarrow> 'a list list" where
  "chunk 0 n xs = []"
| "chunk (Suc fuel) n xs =
     (if xs = [] \<or> n = 0 then [] else take n xs # chunk fuel n (drop n xs))"

definition chunks :: "nat \<Rightarrow> 'a list \<Rightarrow> 'a list list" where
  "chunks n xs = chunk (length xs) n xs"

fun sha1_extend :: "nat \<Rightarrow> w32 list \<Rightarrow> w32 list" where
  "sha1_extend 0 w = w"
| "sha1_extend (Suc n) w =
     (let t = length w
      in sha1_extend n
           (w @ [word_rotl 1 (w ! (t - 3) XOR w ! (t - 8) XOR w ! (t - 14) XOR w ! (t - 16))]))"

definition sha1_f :: "nat \<Rightarrow> w32 \<Rightarrow> w32 \<Rightarrow> w32 \<Rightarrow> w32" where
  "sha1_f t b c d =
     (if t < 20 then (b AND c) OR (NOT b AND d)
      else if t < 40 then b XOR c XOR d
      else if t < 60 then (b AND c) OR (b AND d) OR (c AND d)
      else b XOR c XOR d)"

definition sha1_k :: "nat \<Rightarrow> w32" where
  "sha1_k t =
     (if t < 20 then 0x5A827999
      else if t < 40 then 0x6ED9EBA1
      else if t < 60 then 0x8F1BBCDC
      else 0xCA62C1D6)"

type_synonym sha1_state = "w32 \<times> w32 \<times> w32 \<times> w32 \<times> w32"

fun sha1_round :: "sha1_state \<Rightarrow> nat \<times> w32 \<Rightarrow> sha1_state" where
  "sha1_round (a, b, c, d, e) (t, wt) =
     (word_rotl 5 a + sha1_f t b c d + e + sha1_k t + wt, a, word_rotl 30 b, c, d)"

definition sha1_block :: "sha1_state \<Rightarrow> nat list \<Rightarrow> sha1_state" where
  "sha1_block h block =
     (case h of (h0, h1, h2, h3, h4) \<Rightarrow>
        (case foldl sha1_round h (zip [0..<80] (sha1_extend 64 (map be32 (chunks 4 block)))) of
           (a, b, c, d, e) \<Rightarrow> (h0 + a, h1 + b, h2 + c, h3 + d, h4 + e)))"

definition sha1_init :: sha1_state where
  "sha1_init = (0x67452301, 0xEFCDAB89, 0x98BADCFE, 0x10325476, 0xC3D2E1F0)"

definition hexdigit :: "nat \<Rightarrow> char" where
  "hexdigit n = ''0123456789abcdef'' ! (n mod 16)"

definition hex32 :: "w32 \<Rightarrow> string" where
  "hex32 w = map (\<lambda>i. hexdigit (unat (drop_bit (4 * (7 - i)) w))) [0..<8]"

definition sha1_hex :: "string \<Rightarrow> string" where
  "sha1_hex s =
     (case foldl sha1_block sha1_init (chunks 64 (sha1_pad (map of_char s))) of
        (h0, h1, h2, h3, h4) \<Rightarrow> hex32 h0 @ hex32 h1 @ hex32 h2 @ hex32 h3 @ hex32 h4)"

text \<open>
  The hash object: \<open>createHash\<close> starts with the empty message, \<open>update\<close> appends its
  argument, \<open>digest\<close> hashes what was accumulated.
\<close>

definition createHash :: string where
  "createHash = []"

definition hash_update :: "string \<Rightarrow> string \<Rightarrow> string" where
  "hash_update h s = h @ s"

definition hash_digest_hex :: "string \<Rightarrow> string" where
  "hash_digest_hex h = sha1_hex h"

section \<open>cache.js\<close>

definition CACHE_VERSION :: real where
  "CACHE_VERSION = 1"

definition emptyStore :: jsval where
  "emptyStore = JObj [(''version'', JNum CACHE_VERSION), (''entries'', JObj [])]"

text \<open>
  The file system, the msgpack decoder, \<open>JSON.parse\<close> and the message table are outside the
  repository's code: \<open>loadCache\<close> takes them as parameters. Each of the three calls that
  can throw returns \<open>error + _\<close>; what they throw is an \<open>Error\<close> object, which has a
  \<open>message\<close>. The second component of the result is what \<open>console.warn\<close> printed.
\<close>

record cacheIO =
  existsSync :: "string \<Rightarrow> bool"
  readFileSync :: "string \<Rightarrow> error + string"
  decode :: "string \<Rightarrow> error + jsval"
  JSON_parse :: "string \<Rightarrow> error + jsval"
  errCacheReadPrefix :: "string option \<Rightarrow> string"

definition readParsed :: "cacheIO \<Rightarrow> string \<Rightarrow> error + jsval" where
  "readParsed io cachePath =
     bindE (readFileSync io cachePath) (\<lambda>raw.
       tryCatch (decode io raw) (\<lambda>decodeError. JSON_parse io raw))"

definition loadCache_try :: "cacheIO \<Rightarrow> string \<Rightarrow> error + jsval" where
  "loadCache_try io cachePath =
     bindE (readParsed io cachePath) (\<lambda>parsed.
     bindE (getProp parsed ''version'') (\<lambda>version.
       if version \<noteq> JNum CACHE_VERSION then Inr emptyStore
       else bindE (getProp parsed ''entries'') (\<lambda>entries.
         if \<not> truthy entries then Inr emptyStore else Inr parsed)))"

definition loadCache ::
  "cacheIO \<Rightarrow> string option \<Rightarrow> string option \<Rightarrow> error + (jsval \<times> string list)" where
  "loadCache io cachePath language =
     (case cachePath of
        None \<Rightarrow> Inr (emptyStore, [])
      | Some p \<Rightarrow>
          if p = [] then Inr (emptyStore, [])
          else if \<not> existsSync io p then Inr (emptyStore, [])
          else tryCatch
                 (bindE (loadCache_try io p) (\<lambda>store. Inr (store, [])))
                 (\<lambda>error. Inr (emptyStore,
                    [errCacheReadPrefix io language @ '' '' @ p @ '': '' @ message error])))"

definition buildCacheKey :: "string \<Rightarrow> string \<Rightarrow> string" where
  "buildCacheKey modelKey componentId = modelKey @ '':'' @ componentId"

text \<open>\<open>x || ''\<close> on an argument that is a string, \<open>undefined\<close> or \<open>null\<close>.\<close>

fun orEmpty :: "string option \<Rightarrow> string" where
  "orEmpty None = []"
| "orEmpty (Some s) = s"

definition fingerprintRepresentation ::
  "string option \<Rightarrow> string option \<Rightarrow> string option \<Rightarrow> string option \<Rightarrow> string option \<Rightarrow> string" where
  "fingerprintRepresentation codeRep styleRep styleText structureRep holisticRep =
     (let hash = createHash;
          hash = hash_update hash (orEmpty codeRep);
          hash = hash_update hash (orEmpty styleRep);
          hash = hash_update hash (orEmpty styleText);
          hash = hash_update hash (orEmpty structureRep);
          hash = hash_update hash (orEmpty holisticRep)
      in hash_digest_hex hash)"

section \<open>Numbers, strings and small containers\<close>

text \<open>
  \<open>Number(x.toFixed(4))\<close>: the nearest multiple of \<open>1/10000\<close>, a tie going away from
  zero (\<open>toFixed\<close> works on the magnitude and puts the sign back).
\<close>

definition toFixed4 :: "real \<Rightarrow> real" where
  "toFixed4 x =
     (if x < 0 then - (real_of_int (round (- x * 10000)) / 10000)
      else real_of_int (round (x * 10000)) / 10000)"

text \<open>\<open>list || []\<close> and \<open>Array.isArray(list) ? list.length : 0\<close>; \<open>None\<close> is an absent field.\<close>

fun orEmptyList :: "'a list option \<Rightarrow> 'a list" where
  "orEmptyList None = []"
| "orEmptyList (Some xs) = xs"

definition listLength :: "'a list option \<Rightarrow> nat" where
  "listLength list = (case list of None \<Rightarrow> 0 | Some xs \<Rightarrow> length xs)"

text \<open>\<open>new Set(xs)\<close>, as the list of its elements in insertion order.\<close>

definition jsSet :: "'a list \<Rightarrow> 'a list" where
  "jsSet xs = rev (remdups (rev xs))"

text \<open>
  \<open>obj[k] = (obj[k] || 0) + 1\<close> on an object used as a counter table; the association list
  keeps the keys in the order they were first written (the order \<open>Object.entries\<close> lists
  keys that are not array indices).
\<close>

fun bumpCount :: "(string \<times> nat) list \<Rightarrow> string \<Rightarrow> (string \<times> nat) list" where
  "bumpCount [] k = [(k, 1)]"
| "bumpCount ((k', n) # rest) k =
     (if k' = k then (k', n + 1) # rest else (k', n) # bumpCount rest k)"

text \<open>\<open>map.set(k, v)\<close> on a \<open>Map\<close>: an existing key keeps its place, a new one goes last.\<close>

fun mapSet :: "string \<Rightarrow> real \<Rightarrow> (string \<times> real) list \<Rightarrow> (string \<times> real) list" where
  "mapSet k v [] = [(k, v)]"
| "mapSet k v ((k', v') # rest) =
     (if k' = k then (k, v) # rest else (k', v') # mapSet k v rest)"

text \<open>
  \<open>s.split(re)\<close> for a regular expression \<open>re\<close> matching a non-empty run of separator
  characters: the pieces between the runs, an empty piece first or last when the string
  starts or ends with a separator.
\<close>

function splitRuns :: "(char \<Rightarrow> bool) \<Rightarrow> string \<Rightarrow> string \<Rightarrow> string list" where
  "splitRuns sep cur [] = [cur]"
| "splitRuns sep cur (c # cs) =
     (if sep c then cur # splitRuns sep [] (dropWhile sep cs)
      else splitRuns sep (cur @ [c]) cs)"
  by pat_completeness auto
termination
  by (relation "measure (\<lambda>(sep, cur, s). length s)")
     (auto simp: length_dropWhile_le less_Suc_eq_le)

text \<open>\<open>s.split('\n')\<close>: the pieces between the occurrences of one character.\<close>

fun splitChar :: "char \<Rightarrow> string \<Rightarrow> string \<Rightarrow> string list" where
  "splitChar d cur [] = [cur]"
| "splitChar d cur (c # cs) =
     (if c = d then cur # splitChar d [] cs else splitChar d (cur @ [c]) cs)"

definition newline :: char where
  "newline = CHR 0x0A"

text \<open>White space that \<open>trim\<close> removes, within ASCII.\<close>

definition isSpace :: "char \<Rightarrow> bool" where
  "isSpace c = (c \<in> set [CHR 0x09, CHR 0x0A, CHR 0x0B, CHR 0x0C, CHR 0x0D, CHR 0x20])"

definition trim :: "string \<Rightarrow> string" where
  "trim s = rev (dropWhile isSpace (rev (dropWhile isSpace s)))"

text \<open>The class \<open>\w\<close> of a regular expression without the unicode flag.\<close>

definition isWordChar :: "char \<Rightarrow> bool" where
  "isWordChar c =
     (let n = (of_char c :: nat)
      in (48 \<le> n \<and> n \<le> 57) \<or> (65 \<le> n \<and> n \<le> 90) \<or> n = 95 \<or> (97 \<le> n \<and> n \<le> 122))"

text \<open>\<open>toLowerCase\<close>, on ASCII letters.\<close>

definition toLowerChar :: "char \<Rightarrow> char" where
  "toLowerChar c =
     (case map_of (zip ''ABCDEFGHIJKLMNOPQRSTUVWXYZ'' ''abcdefghijklmnopqrstuvwxyz'') c of
        Some l \<Rightarrow> l
      | None \<Rightarrow> c)"

definition toLowerCase :: "string \<Rightarrow> string" where
  "toLowerCase s = map toLowerChar s"

section \<open>The data model\<close>

text \<open>
  A field that the code reads with a default (\<open>x || []\<close>, \<open>x?.y\<close>, a default parameter)
  or tests with \<open>Array.isArray\<close> is an \<open>option\<close>: \<open>None\<close> is the absent field.
\<close>

record props =
  names :: "string list option"
  spreads :: "nat option"

record component =
  comp_id :: string
  comp_name :: string
  filePath :: "string option"
  source :: "string option"
  isWrapper :: bool
  isCompareTarget :: bool
  componentRefs :: "string list option"
  hooks :: "string list option"
  jsxTags :: "string list option"
  textNodes :: "string list option"
  logicTokens :: "string list option"
  literals :: "string list option"
  classNames :: "string list option"
  props :: "props option"

record entry =
  component :: component
  vector :: "real list"
  styleVec :: "real list"
  stylePaths :: "string list option"
  hasCssInJs :: bool
  hasStyles :: bool

record config =
  similarityThreshold :: real
  highSimilarityThreshold :: real
  maxSimilarityThreshold :: "real option"
  limit :: "real option"
  compareGlobs :: "string list option"
  minPathDistance :: real
  disableAnalyses :: "string list option"
  language :: "string option"

text \<open>The hint strings of the message table \<open>getI18n\<close> returns; an empty hint is falsy.\<close>

record i18n =
  hintWrapper :: string
  hintStyle :: string
  hintLogic :: string
  hintCopy :: string
  hintProp :: string
  hintFork :: string

record pair =
  pair_a :: string
  pair_b :: string
  pair_similarity :: real
  pair_category :: string
  pair_labels :: "string list"
  pair_hints :: "string list"

record scorecard =
  meanSimilarity :: real
  maxSimilarity :: real
  evaluatedPairs :: nat
  coveredComponents :: nat
  suppressedPairs :: nat
  suppressionReasons :: "(string \<times> nat) list"
  minBestSimilarity :: real
  maxBestSimilarity :: real

record similarityResult =
  pairs :: "pair list"
  scorecard :: scorecard

text \<open>
  The functions of \<open>math.js\<close> are not among the files at hand; the functions below that
  call \<open>cosine\<close> take it as their first argument.
\<close>

type_synonym cosineFn = "real list \<Rightarrow> real list \<Rightarrow> real"


section \<open>labels.js\<close>

text \<open>
  \<open>overlap\<close> reads \<open>listA.length\<close> first and \<open>listB.length\<close> only when the first list is not
  empty; reading \<open>length\<close> of an absent list throws.
\<close>

definition overlap :: "string list option \<Rightarrow> string list option \<Rightarrow> error + real" where
  "overlap listA listB =
     (case listA of
        None \<Rightarrow> Inl (TypeError ''Cannot read properties of undefined (reading length)'')
      | Some la \<Rightarrow>
          if length la = 0 then Inr 0
          else (case listB of
                  None \<Rightarrow> Inl (TypeError ''Cannot read properties of undefined (reading length)'')
                | Some lb \<Rightarrow>
                    if length lb = 0 then Inr 0
                    else (let a = jsSet la;
                              b = jsSet lb;
                              intersection = length (filter (\<lambda>item. item \<in> set b) a)
                          in Inr (real intersection / real (max (length a) (length b))))))"

definition tokenize :: "string option \<Rightarrow> error + string list" where
  "tokenize text =
     (case text of
        None \<Rightarrow> Inl (TypeError ''Cannot read properties of undefined (reading toLowerCase)'')
      | Some t \<Rightarrow>
          Inr (filter (\<lambda>s. s \<noteq> []) (splitRuns (\<lambda>c. \<not> isWordChar c) [] (toLowerCase t))))"

definition textOverlap :: "string option \<Rightarrow> string option \<Rightarrow> error + real" where
  "textOverlap a b =
     bindE (tokenize a) (\<lambda>tokensA.
     bindE (tokenize b) (\<lambda>tokensB.
       overlap (Some tokensA) (Some tokensB)))"

definition lineCount :: "string option \<Rightarrow> error + nat" where
  "lineCount text =
     (case text of
        None \<Rightarrow> Inl (TypeError ''Cannot read properties of undefined (reading split)'')
      | Some t \<Rightarrow> Inr (length (splitChar newline [] t)))"

definition isDisabled :: "config \<Rightarrow> string \<Rightarrow> bool" where
  "isDisabled config label = (label \<in> set (orEmptyList (disableAnalyses config)))"

definition intersect :: "string list \<Rightarrow> string list \<Rightarrow> string list" where
  "intersect listA listB = jsSet (filter (\<lambda>item. item \<in> set listB) listA)"

definition difference :: "string list \<Rightarrow> string list \<Rightarrow> string list" where
  "difference list subtract = filter (\<lambda>item. item \<notin> set subtract) list"

record ctx =
  ctx_entryA :: entry
  ctx_entryB :: entry
  ctx_similarity :: real
  ctx_config :: config
  ctx_i18n :: i18n
  ctx_logicOverlap :: real
  ctx_literalOverlap :: real
  ctx_styleSimilarity :: real
  ctx_tokenOverlap :: real
  ctx_lineDiff :: nat
  ctx_hasProps :: bool
  ctx_hasStyles :: bool
  ctx_stylePathsA :: "string list"
  ctx_stylePathsB :: "string list"
  ctx_hasCssInJsA :: bool
  ctx_hasCssInJsB :: bool

text \<open>\<open>component.props?.names?.length || 0\<close>\<close>

definition propNamesLength :: "component \<Rightarrow> nat" where
  "propNamesLength c = (case props c of None \<Rightarrow> 0 | Some p \<Rightarrow> listLength (names p))"

definition buildContext ::
  "cosineFn \<Rightarrow> entry \<Rightarrow> entry \<Rightarrow> real \<Rightarrow> config \<Rightarrow> i18n \<Rightarrow> error + ctx" where
  "buildContext cosine entryA entryB similarity config i18n =
     bindE (overlap (logicTokens (component entryA)) (logicTokens (component entryB))) (\<lambda>logicOverlap.
     bindE (overlap (literals (component entryA)) (literals (component entryB))) (\<lambda>literalOverlap.
     bindE (textOverlap (source (component entryA)) (source (component entryB))) (\<lambda>tokenOverlap.
     bindE (lineCount (source (component entryA))) (\<lambda>linesA.
     bindE (lineCount (source (component entryB))) (\<lambda>linesB.
       Inr \<lparr> ctx_entryA = entryA,
             ctx_entryB = entryB,
             ctx_similarity = similarity,
             ctx_config = config,
             ctx_i18n = i18n,
             ctx_logicOverlap = logicOverlap,
             ctx_literalOverlap = literalOverlap,
             ctx_styleSimilarity = cosine (styleVec entryA) (styleVec entryB),
             ctx_tokenOverlap = tokenOverlap,
             ctx_lineDiff = nat \<bar>int linesA - int linesB\<bar>,
             ctx_hasProps = (propNamesLength (component entryA) > 0
                             \<and> propNamesLength (component entryB) > 0),
             ctx_hasStyles = (hasStyles entryA \<or> hasStyles entryB),
             ctx_stylePathsA = orEmptyList (stylePaths entryA),
             ctx_stylePathsB = orEmptyList (stylePaths entryB),
             ctx_hasCssInJsA = hasCssInJs entryA,
             ctx_hasCssInJsB = hasCssInJs entryB \<rparr>)))))"

text \<open>A check returns \<open>None\<close> for \<open>null\<close>, or the label with its hint.\<close>

definition wrapperCheck :: "ctx \<Rightarrow> (string \<times> string) option" where
  "wrapperCheck ctx =
     (if isDisabled (ctx_config ctx) ''wrapper-duplicate'' then None
      else if isWrapper (component (ctx_entryA ctx)) \<and> isWrapper (component (ctx_entryB ctx))
        then Some (''wrapper-duplicate'', hintWrapper (ctx_i18n ctx))
      else None)"

definition styleCheck :: "ctx \<Rightarrow> (string \<times> string) option" where
  "styleCheck ctx =
     (if isDisabled (ctx_config ctx) ''style-duplicate'' then None
      else if \<not> ctx_hasStyles ctx then None
      else (let sharedPaths = intersect (ctx_stylePathsA ctx) (ctx_stylePathsB ctx);
                uniqueA = difference (ctx_stylePathsA ctx) sharedPaths;
                uniqueB = difference (ctx_stylePathsB ctx) sharedPaths;
                sharedOnly = (length sharedPaths > 0 \<and> \<not> ctx_hasCssInJsA ctx \<and> \<not> ctx_hasCssInJsB ctx);
                onlySharedSources = (sharedOnly \<and> length uniqueA = 0 \<and> length uniqueB = 0)
            in if onlySharedSources then None
               else if ctx_styleSimilarity ctx \<ge> 0.8
                 then Some (''style-duplicate'', hintStyle (ctx_i18n ctx))
               else None))"

definition logicCheck :: "ctx \<Rightarrow> (string \<times> string) option" where
  "logicCheck ctx =
     (if isDisabled (ctx_config ctx) ''logic-duplicate'' then None
      else if ctx_logicOverlap ctx \<ge> 0.6
        then Some (''logic-duplicate'', hintLogic (ctx_i18n ctx))
      else None)"

definition copyCheck :: "ctx \<Rightarrow> (string \<times> string) option" where
  "copyCheck ctx =
     (if isDisabled (ctx_config ctx) ''copy-paste-variant'' then None
      else if ctx_similarity ctx \<ge> 0.95 \<or> ctx_tokenOverlap ctx \<ge> 0.9
        then Some (''copy-paste-variant'', hintCopy (ctx_i18n ctx))
      else None)"

definition propCheck :: "ctx \<Rightarrow> (string \<times> string) option" where
  "propCheck ctx =
     (if isDisabled (ctx_config ctx) ''prop-parameterizable'' then None
      else (let highSimilarity = (ctx_similarity ctx \<ge> highSimilarityThreshold (ctx_config ctx))
            in if highSimilarity \<and> (ctx_literalOverlap ctx \<ge> 0.4 \<or> ctx_hasProps ctx)
                 then Some (''prop-parameterizable'', hintProp (ctx_i18n ctx))
               else None))"

definition forkCheck :: "ctx \<Rightarrow> string list \<Rightarrow> (string \<times> string) option" where
  "forkCheck ctx labels =
     (if isDisabled (ctx_config ctx) ''forked-clone'' then None
      else (let eligible = (ctx_similarity ctx \<ge> similarityThreshold (ctx_config ctx)
                            \<and> length labels = 0 \<and> ctx_lineDiff ctx \<ge> 4)
            in if eligible then Some (''forked-clone'', hintFork (ctx_i18n ctx)) else None))"

text \<open>\<open>runCheck\<close> pushes onto the two arrays; the model returns them.\<close>

definition runCheck ::
  "string list \<times> string list \<Rightarrow> (string \<times> string) option \<Rightarrow> string list \<times> string list" where
  "runCheck lh result =
     (case result of
        None \<Rightarrow> lh
      | Some (label, hint) \<Rightarrow>
          (fst lh @ [label], if hint \<noteq> [] then snd lh @ [hint] else snd lh))"

definition labelPair ::
  "cosineFn \<Rightarrow> (string option \<Rightarrow> i18n) \<Rightarrow> entry \<Rightarrow> entry \<Rightarrow> real \<Rightarrow> config
     \<Rightarrow> error + (string list \<times> string list)" where
  "labelPair cosine getI18n entryA entryB similarity config =
     (let i18n = getI18n (language config)
      in bindE (buildContext cosine entryA entryB similarity config i18n) (\<lambda>context.
           (let lh = ([], []);
                lh = runCheck lh (wrapperCheck context);
                lh = runCheck lh (styleCheck context);
                lh = runCheck lh (logicCheck context);
                lh = runCheck lh (copyCheck context);
                lh = runCheck lh (propCheck context);
                lh = runCheck lh (forkCheck context (fst lh))
            in Inr lh)))"

text \<open>
  The label a check contributes, and the labels of the five checks that run before
  \<open>forkCheck\<close> (used to state what \<open>labelPair\<close> returns).
\<close>

definition labelOf :: "(string \<times> string) option \<Rightarrow> string list" where
  "labelOf r = (case r of None \<Rightarrow> [] | Some lh \<Rightarrow> [fst lh])"

definition earlierLabels :: "ctx \<Rightarrow> string list" where
  "earlierLabels c =
     labelOf (wrapperCheck c) @ labelOf (styleCheck c) @ labelOf (logicCheck c)
       @ labelOf (copyCheck c) @ labelOf (propCheck c)"

text \<open>
  A component with its absent \<open>componentRefs\<close>, \<open>hooks\<close>, \<open>jsxTags\<close>, \<open>textNodes\<close> and prop
  names replaced by empty lists (used to state that the code defaults them).
\<close>

definition defaultedLists :: "component \<Rightarrow> component" where
  "defaultedLists c =
     c\<lparr> componentRefs := Some (orEmptyList (componentRefs c)),
        hooks := Some (orEmptyList (hooks c)),
        jsxTags := Some (orEmptyList (jsxTags c)),
        textNodes := Some (orEmptyList (textNodes c)),
        props := Some \<lparr> names = Some (case props c of None \<Rightarrow> []
                                         | Some p \<Rightarrow> orEmptyList (names p)),
                        spreads = (case props c of None \<Rightarrow> None | Some p \<Rightarrow> spreads p) \<rparr> \<rparr>"

definition defaultedEntry :: "entry \<Rightarrow> entry" where
  "defaultedEntry e = e\<lparr> component := defaultedLists (component e) \<rparr>"


section \<open>similarity.js: the embedding orchestrator\<close>





section \<open>Conversion to a number (\<open>ToNumber\<close>)\<close>

















section \<open>similarity.js: cache hit or miss for one component\<close>




section \<open>similarity.js: the vector combiner\<close>

record weight =
  w_code :: "real option"
  w_style :: "real option"
  w_structure :: "real option"
  w_holistic :: "real option"

definition DEFAULT_WEIGHT :: weight where
  "DEFAULT_WEIGHT =
     \<lparr> w_code = Some 0.55, w_style = Some 0.2, w_structure = Some 0.15, w_holistic = Some 0.1 \<rparr>"

text \<open>One key of \<open>{ ...DEFAULT_WEIGHT, ...weight }\<close>: the configured value when the key is there.\<close>

definition spreadKey :: "real option \<Rightarrow> real option \<Rightarrow> real" where
  "spreadKey dflt given =
     (case given of Some w \<Rightarrow> w | None \<Rightarrow> (case dflt of Some w \<Rightarrow> w | None \<Rightarrow> 0))"

text \<open>The L2 norm of a vector.\<close>

definition l2norm :: "real list \<Rightarrow> real" where
  "l2norm v = sqrt (sum_list (map (\<lambda>x. x * x) v))"

text \<open>
  Modelled from the spec: \<open>normalize\<close> of \<open>math.js\<close>, which is not among the files at hand.
  The spec: "L2-normalize the result (if the norm is zero, return the zero-length/unchanged
  vector rather than dividing by zero)".
\<close>

definition normalizeVec :: "real list \<Rightarrow> real list" where
  "normalizeVec v = (if l2norm v = 0 then v else map (\<lambda>x. x / l2norm v) v)"

text \<open>
  Modelled from the spec: \<open>cosine\<close> of \<open>math.js\<close>, which is not among the files at hand. The
  spec: "cosine similarity of the two combined vectors", "cosine similarity against an
  empty vector being defined as 0". The spec does not say what the cosine of a vector of
  norm zero is; it is taken as 0 here. The definition is used for concrete runs only, on
  vectors of norm 1; the functions below take the cosine as a parameter.
\<close>

definition cosine_spec :: cosineFn where
  "cosine_spec u v =
     (if u = [] \<or> v = [] \<or> l2norm u = 0 \<or> l2norm v = 0 then 0
      else sum_list (map (\<lambda>(x, y). x * y) (zip u v)) / (l2norm u * l2norm v))"

text \<open>
  A vector is \<open>None\<close> when it is not an array. \<open>vec[i] || 0\<close> is \<open>vec[i]\<close> for a number
  below the common size.
\<close>

definition weightedParts ::
  "real list option \<Rightarrow> real list option \<Rightarrow> real list option \<Rightarrow> real list option
     \<Rightarrow> weight \<Rightarrow> bool option \<Rightarrow> (real list \<times> real) list" where
  "weightedParts codeV styleV structureV holisticV wt hasStyleSignal =
     (let resolvedCode = spreadKey (w_code DEFAULT_WEIGHT) (w_code wt);
          resolvedStyle = spreadKey (w_style DEFAULT_WEIGHT) (w_style wt);
          resolvedStructure = spreadKey (w_structure DEFAULT_WEIGHT) (w_structure wt);
          resolvedHolistic = spreadKey (w_holistic DEFAULT_WEIGHT) (w_holistic wt)
      in [(vec, w).
            (Some vec, w) \<leftarrow>
              [(codeV, resolvedCode),
               (styleV, if hasStyleSignal = Some False then 0 else resolvedStyle),
               (structureV, resolvedStructure),
               (holisticV, resolvedHolistic)],
            length vec > 0 \<and> w > 0])"

definition addPart :: "nat \<Rightarrow> real \<Rightarrow> real list \<Rightarrow> real list \<times> real \<Rightarrow> real list" where
  "addPart vecSize totalWeight combined part =
     map (\<lambda>i. combined ! i + (fst part ! i) * (snd part / totalWeight)) [0..<vecSize]"

definition combineVectors ::
  "real list option \<Rightarrow> real list option \<Rightarrow> real list option \<Rightarrow> real list option
     \<Rightarrow> weight \<Rightarrow> bool option \<Rightarrow> real list" where
  "combineVectors codeV styleV structureV holisticV wt hasStyleSignal =
     (let parts = weightedParts codeV styleV structureV holisticV wt hasStyleSignal
      in case parts of
           [] \<Rightarrow> []
         | p # ps \<Rightarrow>
             (let vecSize = foldl min (length (fst p)) (map (\<lambda>part. length (fst part)) ps);
                  totalWeight = foldl (+) 0 (map snd parts);
                  combined = foldl (addPart vecSize totalWeight) (replicate vecSize 0) parts
              in normalizeVec combined))"

text \<open>
  The spec's words for the combiner when all four parts survive: the weights divided by
  their sum, the vectors cut to the shortest length, the weighted element-wise sum.
\<close>

definition weightedSum_spec ::
  "real list \<Rightarrow> real list \<Rightarrow> real list \<Rightarrow> real list \<Rightarrow> real \<Rightarrow> real \<Rightarrow> real \<Rightarrow> real
     \<Rightarrow> real list" where
  "weightedSum_spec c s t h wc ws wt wh =
     map (\<lambda>i. c ! i * (wc / (wc + ws + wt + wh)) + s ! i * (ws / (wc + ws + wt + wh))
              + t ! i * (wt / (wc + ws + wt + wh)) + h ! i * (wh / (wc + ws + wt + wh)))
       [0..<min (min (min (length c) (length s)) (length t)) (length h)]"


section \<open>similarity.js: suppression heuristics\<close>

definition countNonEmptyLines :: "string option \<Rightarrow> nat" where
  "countNonEmptyLines src =
     length (filter (\<lambda>line. line \<noteq> [])
               (map trim (splitChar newline [] (case src of None \<Rightarrow> [] | Some s \<Rightarrow> s))))"

definition hasProps :: "component \<Rightarrow> bool" where
  "hasProps c =
     (propNamesLength c
        + (case props c of None \<Rightarrow> 0 | Some p \<Rightarrow> (case spreads p of None \<Rightarrow> 0 | Some n \<Rightarrow> n))
      > 0)"

definition isWrapperLike :: "component \<Rightarrow> bool" where
  "isWrapperLike c =
     (if isWrapper c then True
      else (let tiny = (countNonEmptyLines (source c) \<le> 8);
                shallowTree = (length (jsSet (orEmptyList (jsxTags c))) \<le> 2);
                hasPropSurface = hasProps c;
                noLogic = (listLength (logicTokens c) + listLength (hooks c) = 0);
                limitedText = (listLength (textNodes c) \<le> 2)
            in tiny \<and> shallowTree \<and> hasPropSurface \<and> noLogic \<and> limitedText))"

text \<open>
  \<open>Object.entries(counts).sort((a, b) => b[1] - a[1])\<close>: a stable sort, largest count first.
\<close>

definition dominantTag :: "component \<Rightarrow> string option" where
  "dominantTag c =
     (let tags = orEmptyList (jsxTags c)
      in if tags = [] then None
         else (let counts = foldl bumpCount [] tags;
                   sorted = sort_key (\<lambda>e. - int (snd e)) counts
               in case sorted of [] \<Rightarrow> None | e # rest \<Rightarrow> Some (fst e)))"

definition componentSignal :: "component \<Rightarrow> nat" where
  "componentSignal c =
     (let buckets =
            [length (jsSet (orEmptyList (logicTokens c))),
             length (jsSet (orEmptyList (hooks c))),
             length (jsSet (orEmptyList (classNames c))),
             length (jsSet (orEmptyList (textNodes c))),
             length (jsSet (case props c of None \<Rightarrow> [] | Some p \<Rightarrow> orEmptyList (names p)))]
      in foldl (\<lambda>acc sz. acc + min sz 2) 0 buckets)"

definition differentWrappedBases :: "string list option \<Rightarrow> string list option \<Rightarrow> bool" where
  "differentWrappedBases refsA refsB =
     (let ra = orEmptyList refsA; rb = orEmptyList refsB
      in if length ra = 0 \<or> length rb = 0 then False
         else \<not> list_ex (\<lambda>r. r \<in> set ra) rb)"

definition compositionSuppression :: "component \<Rightarrow> component \<Rightarrow> string option" where
  "compositionSuppression compA compB =
     (let refsA = orEmptyList (componentRefs compA);
          refsB = orEmptyList (componentRefs compB)
      in if comp_name compB \<in> set refsA \<or> comp_name compA \<in> set refsB
         then Some ''component-composition'' else None)"

definition wrapperSuppression :: "component \<Rightarrow> component \<Rightarrow> string option" where
  "wrapperSuppression compA compB =
     (if \<not> isWrapperLike compA \<or> \<not> isWrapperLike compB then None
      else if differentWrappedBases (componentRefs compA) (componentRefs compB)
        then Some ''wrapper-different-base''
      else (let baseA = dominantTag compA;
                baseB = dominantTag compB;
                sharedBase = (baseA \<noteq> None \<and> baseA \<noteq> Some [] \<and> baseA = baseB);
                noCustomLogic =
                  (listLength (logicTokens compA) + listLength (logicTokens compB) = 0
                   \<and> listLength (hooks compA) + listLength (hooks compB) = 0);
                leanText = (listLength (textNodes compA) + listLength (textNodes compB) \<le> 3);
                leanLiterals = (listLength (literals compA) + listLength (literals compB) \<le> 6)
            in if sharedBase \<or> (noCustomLogic \<and> leanText \<and> leanLiterals)
               then Some ''wrapper-specialization'' else None))"

definition lowSignalSuppression :: "component \<Rightarrow> component \<Rightarrow> string option" where
  "lowSignalSuppression compA compB =
     (let shortEnough =
            (countNonEmptyLines (source compA) \<le> 16 \<and> countNonEmptyLines (source compB) \<le> 16)
      in if \<not> shortEnough then None
         else (let propSurface = (hasProps compA \<or> hasProps compB);
                   wrapperish = (isWrapperLike compA \<or> isWrapperLike compB)
               in if \<not> propSurface \<and> \<not> wrapperish then None
                  else (let signalA = componentSignal compA;
                            signalB = componentSignal compB
                        in if signalA \<le> 2 \<and> signalB \<le> 2 then Some ''low-signal-pair''
                           else None)))"

text \<open>\<open>x || y || z\<close> on reasons that are \<open>null\<close> or a non-empty string.\<close>

definition suppressPair :: "entry \<Rightarrow> entry \<Rightarrow> string option" where
  "suppressPair entryA entryB =
     (case compositionSuppression (component entryA) (component entryB) of
        Some r \<Rightarrow> Some r
      | None \<Rightarrow>
          (case wrapperSuppression (component entryA) (component entryB) of
             Some r \<Rightarrow> Some r
           | None \<Rightarrow> lowSignalSuppression (component entryA) (component entryB)))"

section \<open>similarity.js: the path-distance gate\<close>

definition isPathSep :: "char \<Rightarrow> bool" where
  "isPathSep c = (c = CHR ''/'' \<or> c = CHR 0x5C)"

definition splitDirs :: "string option \<Rightarrow> string list" where
  "splitDirs fp =
     (case fp of
        None \<Rightarrow> []
      | Some p \<Rightarrow>
          if p = [] then []
          else butlast (filter (\<lambda>s. s \<noteq> []) (splitRuns isPathSep [] p)))"

text \<open>\<open>parts[parts.length - i]\<close> for \<open>i \<ge> 1\<close>: \<open>undefined\<close> (\<open>None\<close>) before the first element.\<close>

definition fromEnd :: "string list \<Rightarrow> nat \<Rightarrow> string option" where
  "fromEnd parts i =
     (if 1 \<le> i \<and> i \<le> length parts then Some (parts ! (length parts - i)) else None)"

function pathDistanceLoop :: "string list \<Rightarrow> string list \<Rightarrow> nat \<Rightarrow> nat \<Rightarrow> nat" where
  "pathDistanceLoop partsA partsB maxIdx i =
     (if i \<le> maxIdx
      then (let a = fromEnd partsA i;
                b = fromEnd partsB i
            in if a \<noteq> b then i
               else if a = None \<or> b = None then i
               else pathDistanceLoop partsA partsB maxIdx (i + 1))
      else 0)"
  by pat_completeness auto
termination
  by (relation "measure (\<lambda>(partsA, partsB, maxIdx, i). Suc maxIdx - i)") auto

definition pathDistance :: "string option \<Rightarrow> string option \<Rightarrow> nat" where
  "pathDistance pathA pathB =
     (let partsA = splitDirs (Some (case pathA of None \<Rightarrow> [] | Some p \<Rightarrow> p));
          partsB = splitDirs (Some (case pathB of None \<Rightarrow> [] | Some p \<Rightarrow> p));
          maxIdx = max (length partsA) (length partsB)
      in pathDistanceLoop partsA partsB maxIdx 1)"

definition shouldSkipByPath :: "string option \<Rightarrow> string option \<Rightarrow> config \<Rightarrow> bool" where
  "shouldSkipByPath pathA pathB config =
     (let minDistance = minPathDistance config
      in if minDistance \<le> 0 then False
         else (let distance = pathDistance pathA pathB
               in real distance < minDistance))"

section \<open>similarity.js: the pairwise similarity engine\<close>

record loopState =
  st_pairs :: "pair list"
  st_bestByComponent :: "(string \<times> real) list"
  st_evaluatedPairs :: nat
  st_similaritySum :: real
  st_maxSimilarity :: real
  st_suppressedPairs :: nat
  st_suppressionReasons :: "(string \<times> nat) list"

definition initState :: loopState where
  "initState =
     \<lparr> st_pairs = [], st_bestByComponent = [], st_evaluatedPairs = 0, st_similaritySum = 0,
       st_maxSimilarity = 0, st_suppressedPairs = 0, st_suppressionReasons = [] \<rparr>"

text \<open>\<open>bestByComponent.get(componentId) || 0\<close>\<close>

definition bestOr0 :: "(string \<times> real) list \<Rightarrow> string \<Rightarrow> real" where
  "bestOr0 best componentId = (case map_of best componentId of None \<Rightarrow> 0 | Some v \<Rightarrow> v)"

definition trackBestSimilarity :: "(string \<times> real) list \<Rightarrow> string \<Rightarrow> real \<Rightarrow> (string \<times> real) list" where
  "trackBestSimilarity best componentId sim =
     (let current = bestOr0 best componentId
      in if sim > current then mapSet componentId sim best else best)"

text \<open>\<open>suppressedPairs += 1; suppressionReasons[reason] = (suppressionReasons[reason] || 0) + 1\<close>\<close>

definition suppress :: "string \<Rightarrow> loopState \<Rightarrow> loopState" where
  "suppress reason st =
     st\<lparr> st_suppressedPairs := st_suppressedPairs st + 1,
         st_suppressionReasons := bumpCount (st_suppressionReasons st) reason \<rparr>"

definition compareEnabled :: "config \<Rightarrow> bool" where
  "compareEnabled config = (case compareGlobs config of None \<Rightarrow> False | Some gs \<Rightarrow> length gs > 0)"

text \<open>
  \<open>compareEnabled && !(aTarget ^ bTarget)\<close>: the pair is filtered out when both or neither
  unit is a compare target.
\<close>

definition compareFiltered :: "config \<Rightarrow> entry \<Rightarrow> entry \<Rightarrow> bool" where
  "compareFiltered config ei ej =
     (compareEnabled config
      \<and> \<not> (isCompareTarget (component ei) \<noteq> isCompareTarget (component ej)))"

text \<open>The running aggregates, lines 152 to 156.\<close>

definition recordSimilarity :: "entry \<Rightarrow> entry \<Rightarrow> real \<Rightarrow> loopState \<Rightarrow> loopState" where
  "recordSimilarity ei ej sim st =
     st\<lparr> st_evaluatedPairs := st_evaluatedPairs st + 1,
         st_similaritySum := st_similaritySum st + sim,
         st_maxSimilarity := (if sim > st_maxSimilarity st then sim else st_maxSimilarity st),
         st_bestByComponent :=
           trackBestSimilarity
             (trackBestSimilarity (st_bestByComponent st) (comp_id (component ei)) sim)
             (comp_id (component ej)) sim \<rparr>"

definition epsilon :: real where
  "epsilon = 1 / 1000000"

text \<open>The body of the inner loop, for \<open>entries[i]\<close> and \<open>entries[j]\<close>.\<close>

definition processPair ::
  "cosineFn \<Rightarrow> (string option \<Rightarrow> i18n) \<Rightarrow> config \<Rightarrow> entry \<Rightarrow> entry \<Rightarrow> loopState
     \<Rightarrow> error + loopState" where
  "processPair cosine getI18n config ei ej st =
     (let maxThreshold = (case maxSimilarityThreshold config of None \<Rightarrow> 1 | Some m \<Rightarrow> m)
      in if compareFiltered config ei ej then Inr (suppress ''compare-filter'' st)
         else (let sim = cosine (vector ei) (vector ej);
                   st = recordSimilarity ei ej sim st
               in if sim < similarityThreshold config then Inr st
                  else if sim - maxThreshold > epsilon
                    then Inr (suppress ''over-max-threshold'' st)
                  else if shouldSkipByPath (filePath (component ei)) (filePath (component ej)) config
                    then Inr (suppress ''near-path'' st)
                  else (case suppressPair ei ej of
                          Some suppression \<Rightarrow> Inr (suppress suppression st)
                        | None \<Rightarrow>
                            bindE (labelPair cosine getI18n ei ej sim config) (\<lambda>lh.
                              Inr (st\<lparr> st_pairs := st_pairs st @
                                     [\<lparr> pair_a = comp_id (component ei),
                                        pair_b = comp_id (component ej),
                                        pair_similarity = toFixed4 sim,
                                        pair_category =
                                          (if sim \<ge> highSimilarityThreshold config
                                           then ''almost-identical'' else ''near-duplicate''),
                                        pair_labels = fst lh,
                                        pair_hints = snd lh \<rparr>] \<rparr>)))))"

text \<open>
  The two nested \<open>for\<close> loops visit the index pairs \<open>(i, j)\<close> with \<open>i < j < entries.length\<close>,
  \<open>i\<close> ascending and \<open>j\<close> ascending within one \<open>i\<close>; a throw ends the run.
\<close>

definition indexPairs :: "nat \<Rightarrow> (nat \<times> nat) list" where
  "indexPairs n = concat (map (\<lambda>i. map (\<lambda>j. (i, j)) [i + 1..<n]) [0..<n])"

fun foldE :: "('s \<Rightarrow> 'x \<Rightarrow> error + 's) \<Rightarrow> 'x list \<Rightarrow> 's \<Rightarrow> error + 's" where
  "foldE f [] st = Inr st"
| "foldE f (x # xs) st = (case f st x of Inl e \<Rightarrow> Inl e | Inr st' \<Rightarrow> foldE f xs st')"

definition loopBody ::
  "cosineFn \<Rightarrow> (string option \<Rightarrow> i18n) \<Rightarrow> entry list \<Rightarrow> config \<Rightarrow> loopState \<Rightarrow> nat \<times> nat
     \<Rightarrow> error + loopState" where
  "loopBody cosine getI18n entries config st ij =
     processPair cosine getI18n config (entries ! fst ij) (entries ! snd ij) st"

definition similarityLoop ::
  "cosineFn \<Rightarrow> (string option \<Rightarrow> i18n) \<Rightarrow> entry list \<Rightarrow> config \<Rightarrow> error + loopState" where
  "similarityLoop cosine getI18n entries config =
     foldE (loopBody cosine getI18n entries config) (indexPairs (length entries)) initState"

text \<open>
  The filter of \<open>limitMatches\<close>, with its \<open>counts\<close> table (\<open>counts[k] || 0\<close> is the value of
  the function at \<open>k\<close>).
\<close>

fun limitFilter :: "real \<Rightarrow> (string \<Rightarrow> nat) \<Rightarrow> pair list \<Rightarrow> pair list" where
  "limitFilter perUnit counts [] = []"
| "limitFilter perUnit counts (p # ps) =
     (let aCount = counts (pair_a p);
          bCount = counts (pair_b p)
      in if real aCount \<ge> perUnit \<or> real bCount \<ge> perUnit then limitFilter perUnit counts ps
         else p # limitFilter perUnit ((counts(pair_a p := aCount + 1))(pair_b p := bCount + 1)) ps)"

text \<open>
  \<open>pairs.sort((a, b) => b.similarity - a.similarity)\<close> is the engine's
  \<open>Array.prototype.sort\<close>; \<open>limitMatches_with\<close> takes it as a parameter. The limit is \<open>None\<close>
  when it is \<open>null\<close>, \<open>undefined\<close> or not a finite number.
\<close>

definition limitMatches_with ::
  "(pair list \<Rightarrow> pair list) \<Rightarrow> pair list \<Rightarrow> real option \<Rightarrow> pair list" where
  "limitMatches_with jsSort ps perUnit =
     (case perUnit of
        None \<Rightarrow> jsSort ps
      | Some l \<Rightarrow> limitFilter l (\<lambda>k. 0) (jsSort ps))"

text \<open>
  What ECMAScript requires of \<open>sort\<close> with this comparator: the result is a permutation,
  in descending order of similarity, and stable (pairs of equal similarity keep their
  order).
\<close>

definition sortConforming :: "(pair list \<Rightarrow> pair list) \<Rightarrow> bool" where
  "sortConforming jsSort =
     (\<forall>ps. mset (jsSort ps) = mset ps
         \<and> sorted_wrt (\<lambda>p q. pair_similarity p \<ge> pair_similarity q) (jsSort ps)
         \<and> (\<forall>s. filter (\<lambda>p. pair_similarity p = s) (jsSort ps)
                = filter (\<lambda>p. pair_similarity p = s) ps))"

text \<open>The stable sort used for concrete runs: insertion sort on the negated similarity.\<close>

definition sortBySimilarityDesc :: "pair list \<Rightarrow> pair list" where
  "sortBySimilarityDesc ps = sort_key (\<lambda>p. - pair_similarity p) ps"


definition buildScorecard ::
  "(string \<times> real) list \<Rightarrow> nat \<Rightarrow> real \<Rightarrow> real \<Rightarrow> nat \<Rightarrow> (string \<times> nat) list \<Rightarrow> scorecard" where
  "buildScorecard bestByComponent evaluated similaritySum maxSim suppressed reasons =
     (let bestValues = map snd bestByComponent;
          mean = (if evaluated = 0 then 0 else toFixed4 (similaritySum / real evaluated));
          minBest = (case bestValues of [] \<Rightarrow> 0 | v # vs \<Rightarrow> toFixed4 (foldl min v vs));
          maxBest = (case bestValues of [] \<Rightarrow> 0 | v # vs \<Rightarrow> toFixed4 (foldl max v vs))
      in \<lparr> meanSimilarity = mean,
           maxSimilarity = toFixed4 maxSim,
           evaluatedPairs = evaluated,
           coveredComponents = length bestValues,
           suppressedPairs = suppressed,
           suppressionReasons = reasons,
           minBestSimilarity = minBest,
           maxBestSimilarity = maxBest \<rparr>)"

definition findSimilarities_with ::
  "(pair list \<Rightarrow> pair list) \<Rightarrow> cosineFn \<Rightarrow> (string option \<Rightarrow> i18n) \<Rightarrow> entry list \<Rightarrow> config
     \<Rightarrow> error + similarityResult" where
  "findSimilarities_with jsSort cosine getI18n entries config =
     bindE (similarityLoop cosine getI18n entries config) (\<lambda>st.
       (let limited = limitMatches_with jsSort (st_pairs st) (limit config);
            score = buildScorecard (st_bestByComponent st) (st_evaluatedPairs st)
                     (st_similaritySum st) (st_maxSimilarity st) (st_suppressedPairs st)
                     (st_suppressionReasons st)
        in Inr \<lparr> pairs = limited, scorecard = score \<rparr>))"

definition findSimilarities ::
  "cosineFn \<Rightarrow> (string option \<Rightarrow> i18n) \<Rightarrow> entry list \<Rightarrow> config \<Rightarrow> error + similarityResult" where
  "findSimilarities cosine getI18n entries config =
     findSimilarities_with sortBySimilarityDesc cosine getI18n entries config"

section \<open>Notions used to state the properties of the engine\<close>



text \<open>
  The similarity of the pair at two indices, the index pairs that pass the compare-mode
  filter, and those among them that touch the unit with id \<open>k\<close>.
\<close>

definition pairSimilarity :: "cosineFn \<Rightarrow> entry list \<Rightarrow> nat \<times> nat \<Rightarrow> real" where
  "pairSimilarity cosine entries ij = cosine (vector (entries ! fst ij)) (vector (entries ! snd ij))"

definition evaluatedOf :: "config \<Rightarrow> entry list \<Rightarrow> (nat \<times> nat) list \<Rightarrow> (nat \<times> nat) list" where
  "evaluatedOf cfg entries ijs =
     filter (\<lambda>ij. \<not> compareFiltered cfg (entries ! fst ij) (entries ! snd ij)) ijs"

definition touching :: "entry list \<Rightarrow> string \<Rightarrow> (nat \<times> nat) list \<Rightarrow> (nat \<times> nat) list" where
  "touching entries k ijs =
     filter (\<lambda>ij. comp_id (component (entries ! fst ij)) = k
                 \<or> comp_id (component (entries ! snd ij)) = k) ijs"

text \<open>Every best similarity stored so far is positive.\<close>

definition allPositive :: "(string \<times> real) list \<Rightarrow> bool" where
  "allPositive best = (\<forall>k v. map_of best k = Some v \<longrightarrow> 0 < v)"

text \<open>\<open>suppressionReasons[reason] || 0\<close>: how many pairs were suppressed for a reason.\<close>

definition reasonCount :: "string \<Rightarrow> loopState \<Rightarrow> nat" where
  "reasonCount reason st =
     (case map_of (st_suppressionReasons st) reason of None \<Rightarrow> 0 | Some n \<Rightarrow> n)"

text \<open>
  What every edition of ECMAScript requires of \<open>sort\<close> with this comparator, stability
  left out: the result is a permutation in descending order of similarity.
\<close>

definition sortOrdered :: "(pair list \<Rightarrow> pair list) \<Rightarrow> bool" where
  "sortOrdered jsSort =
     (\<forall>ps. mset (jsSort ps) = mset ps
         \<and> sorted_wrt (\<lambda>p q. pair_similarity p \<ge> pair_similarity q) (jsSort ps))"

text \<open>
  Another sort that meets the requirements on \<open>Array.prototype.sort\<close>: an ascending
  insertion sort of the reversed list, reversed.
\<close>

definition sortByReversal :: "pair list \<Rightarrow> pair list" where
  "sortByReversal ps = rev (sort_key pair_similarity (rev ps))"

text \<open>
  A sort that is not stable: an ascending insertion sort, reversed, which puts pairs of
  equal similarity in the reverse of their order.
\<close>

definition sortTiesReversed :: "pair list \<Rightarrow> pair list" where
  "sortTiesReversed ps = rev (sort_key pair_similarity ps)"

section \<open>Concrete inputs\<close>

text \<open>A cache file that exists and is neither msgpack nor JSON.\<close>

definition io_unreadable :: cacheIO where
  "io_unreadable =
     \<lparr> existsSync = (\<lambda>p. p = ''cache.bin''),
       readFileSync = (\<lambda>p. Inr ''not a cache''),
       decode = (\<lambda>raw. Inl (Error ''Data read, but end of buffer not reached'')),
       JSON_parse = (\<lambda>raw. Inl (Error ''Unexpected token o in JSON'')),
       errCacheReadPrefix = (\<lambda>lang. ''Failed to read cache'') \<rparr>"

text \<open>A cache file of another version.\<close>

definition io_oldVersion :: cacheIO where
  "io_oldVersion =
     \<lparr> existsSync = (\<lambda>p. p = ''cache.bin''),
       readFileSync = (\<lambda>p. Inr ''old''),
       decode = (\<lambda>raw. Inr (JObj [(''version'', JNum 0), (''entries'', JObj [])])),
       JSON_parse = (\<lambda>raw. Inl (Error ''Unexpected token o in JSON'')),
       errCacheReadPrefix = (\<lambda>lang. ''Failed to read cache'') \<rparr>"

text \<open>Message table, components, entries and configuration for concrete runs.\<close>

definition exI18n :: i18n where
  "exI18n =
     \<lparr> hintWrapper = ''merge the wrappers'', hintStyle = ''share the styles'',
       hintLogic = ''extract the logic'', hintCopy = ''remove the copy'',
       hintProp = ''add a prop'', hintFork = ''reconcile the fork'' \<rparr>"

definition exGetI18n :: "string option \<Rightarrow> i18n" where
  "exGetI18n lang = exI18n"

definition exComponent :: "string \<Rightarrow> string \<Rightarrow> string \<Rightarrow> component" where
  "exComponent cid nm path =
     \<lparr> comp_id = cid, comp_name = nm, filePath = Some path, source = Some ''x'',
       isWrapper = False, isCompareTarget = False, componentRefs = Some [], hooks = Some [],
       jsxTags = Some [], textNodes = Some [], logicTokens = Some [], literals = Some [],
       classNames = Some [], props = None \<rparr>"

definition exEntry :: "string \<Rightarrow> string \<Rightarrow> string \<Rightarrow> real list \<Rightarrow> entry" where
  "exEntry cid nm path v =
     \<lparr> component = exComponent cid nm path, vector = v, styleVec = [1, 0],
       stylePaths = Some [], hasCssInJs = False, hasStyles = False \<rparr>"

definition exConfig :: config where
  "exConfig =
     \<lparr> similarityThreshold = 0.85, highSimilarityThreshold = 0.9,
       maxSimilarityThreshold = Some 1, limit = None, compareGlobs = Some [],
       minPathDistance = 0, disableAnalyses = Some [], language = Some ''en'' \<rparr>"

definition exWrapper :: "entry \<Rightarrow> entry" where
  "exWrapper e = e\<lparr> component := (component e)\<lparr> isWrapper := True \<rparr> \<rparr>"

definition exWithSource :: "string \<Rightarrow> entry \<Rightarrow> entry" where
  "exWithSource src e = e\<lparr> component := (component e)\<lparr> source := Some src \<rparr> \<rparr>"

definition exNoTokens :: "entry \<Rightarrow> entry" where
  "exNoTokens e = e\<lparr> component := (component e)\<lparr> logicTokens := None, literals := None \<rparr> \<rparr>"

definition exTarget :: "entry \<Rightarrow> entry" where
  "exTarget e = e\<lparr> component := (component e)\<lparr> isCompareTarget := True \<rparr> \<rparr>"

text \<open>A source of five lines.\<close>

definition exFiveLines :: string where
  "exFiveLines = [CHR ''b'', newline, newline, newline, newline, CHR ''c'']"






text \<open>
  Two unit vectors whose cosine, 9999/10001, rounds down to 0.9998, a threshold between
  the two values, and the pair the engine reports for them.
\<close>

definition exNear :: "real list" where
  "exNear = [9999 / 10001, 200 / 10001]"

definition exStrictConfig :: config where
  "exStrictConfig = exConfig\<lparr> similarityThreshold := 0.99980001 \<rparr>"

definition exNearPair :: pair where
  "exNearPair =
     \<lparr> pair_a = ''A'', pair_b = ''B'', pair_similarity = 4999 / 5000,
       pair_category = ''almost-identical'', pair_labels = [''copy-paste-variant''],
       pair_hints = [''remove the copy''] \<rparr>"

text \<open>
  A configuration with compare mode on (no entry above is a compare target), and a unit
  vector whose cosine with \<open>[1, 0]\<close> is 0.6.
\<close>

definition exCompareConfig :: config where
  "exCompareConfig = exConfig\<lparr> compareGlobs := Some [''src/new/**''] \<rparr>"

definition exFar :: "real list" where
  "exFar = [3 / 5, 4 / 5]"

text \<open>
  Four entries, two with each of the two vectors above, so that two pairs have cosine 1
  and four have cosine 9999/10001; a configuration that reports at most two pairs for a
  unit; and the pair the engine reports for two of the entries.
\<close>

definition exFour :: "entry list" where
  "exFour =
     [exEntry ''A'' ''A'' ''a/A.jsx'' [1, 0], exEntry ''B'' ''B'' ''b/B.jsx'' exNear,
      exEntry ''C'' ''C'' ''c/C.jsx'' [1, 0], exEntry ''D'' ''D'' ''d/D.jsx'' exNear]"

definition exLimitConfig :: config where
  "exLimitConfig = exConfig\<lparr> limit := Some 2 \<rparr>"

definition exPair :: "string \<Rightarrow> string \<Rightarrow> real \<Rightarrow> pair" where
  "exPair a b s =
     \<lparr> pair_a = a, pair_b = b, pair_similarity = s, pair_category = ''almost-identical'',
       pair_labels = [''copy-paste-variant''], pair_hints = [''remove the copy''] \<rparr>"

section \<open>Properties of cache.js\<close>

lemma loadCache_returns:
  "\<exists>store warnings. loadCache io cachePath lang = Inr (store, warnings)"
  by (auto simp: loadCache_def bindE_def tryCatch_def split: sum.splits option.splits)

lemma loadCache_missing:
  "cachePath = Some p \<Longrightarrow> \<not> existsSync io p \<Longrightarrow>
     loadCache io cachePath lang = Inr (emptyStore, [])"
  by (simp add: loadCache_def)

lemma loadCache_unreadable:
  "cachePath = Some p \<Longrightarrow> p \<noteq> [] \<Longrightarrow> existsSync io p \<Longrightarrow> readParsed io p = Inl e \<Longrightarrow>
     loadCache io cachePath lang =
       Inr (emptyStore, [errCacheReadPrefix io lang @ '' '' @ p @ '': '' @ message e])"
  by (simp add: loadCache_def loadCache_try_def bindE_def tryCatch_def)

lemma readParsed_unparsable:
  "readFileSync io p = Inr raw \<Longrightarrow> decode io raw = Inl e1 \<Longrightarrow> JSON_parse io raw = Inl e2 \<Longrightarrow>
     readParsed io p = Inl e2"
  by (simp add: readParsed_def bindE_def tryCatch_def)

lemma loadCache_version_mismatch:
  "cachePath = Some p \<Longrightarrow> p \<noteq> [] \<Longrightarrow> existsSync io p \<Longrightarrow> readParsed io p = Inr parsed \<Longrightarrow>
   getProp parsed ''version'' = Inr v \<Longrightarrow> v \<noteq> JNum CACHE_VERSION \<Longrightarrow>
     loadCache io cachePath lang = Inr (emptyStore, [])"
  by (simp add: loadCache_def loadCache_try_def bindE_def tryCatch_def)

lemma loadCache_store_shape:
  "loadCache io cachePath lang = Inr (store, warnings) \<Longrightarrow>
     store = emptyStore \<or>
     (getProp store ''version'' = Inr (JNum CACHE_VERSION)
      \<and> (\<exists>entries. getProp store ''entries'' = Inr entries \<and> truthy entries))"
  by (auto simp: loadCache_def loadCache_try_def bindE_def tryCatch_def
           split: sum.splits option.splits if_splits)

text \<open>
  Claim C9. \<open>loadCache\<close> never throws: for every path, file system, decoder and parser it
  returns a store. When there is no file at the path it returns the empty store
  \<open>{version: CACHE_VERSION, entries: {}}\<close> and logs nothing; when the file exists and its
  content can be neither msgpack-decoded nor JSON-parsed (or cannot be read at all) it
  returns the empty store and logs one warning made of the prefix, the path and the
  error's message; when the parsed content has another version it returns the empty
  store and logs nothing. Whatever it returns is the empty store or a store of the
  current version with a truthy \<open>entries\<close>.
\<close>

theorem loadCache_never_throws:
  "(\<exists>store warnings. loadCache io cachePath lang = Inr (store, warnings))
   \<and> (\<forall>p. cachePath = Some p \<and> \<not> existsSync io p \<longrightarrow>
          loadCache io cachePath lang = Inr (emptyStore, []))
   \<and> (\<forall>p raw e1 e2. cachePath = Some p \<and> p \<noteq> [] \<and> existsSync io p
          \<and> readFileSync io p = Inr raw \<and> decode io raw = Inl e1 \<and> JSON_parse io raw = Inl e2 \<longrightarrow>
          loadCache io cachePath lang =
            Inr (emptyStore, [errCacheReadPrefix io lang @ '' '' @ p @ '': '' @ message e2]))
   \<and> (\<forall>p e. cachePath = Some p \<and> p \<noteq> [] \<and> existsSync io p \<and> readFileSync io p = Inl e \<longrightarrow>
          loadCache io cachePath lang =
            Inr (emptyStore, [errCacheReadPrefix io lang @ '' '' @ p @ '': '' @ message e]))
   \<and> (\<forall>p parsed v. cachePath = Some p \<and> p \<noteq> [] \<and> existsSync io p
          \<and> readParsed io p = Inr parsed \<and> getProp parsed ''version'' = Inr v
          \<and> v \<noteq> JNum CACHE_VERSION \<longrightarrow>
          loadCache io cachePath lang = Inr (emptyStore, []))
   \<and> (\<forall>store warnings. loadCache io cachePath lang = Inr (store, warnings) \<longrightarrow>
          store = emptyStore \<or>
          (getProp store ''version'' = Inr (JNum CACHE_VERSION)
           \<and> (\<exists>entries. getProp store ''entries'' = Inr entries \<and> truthy entries)))"
proof (intro conjI allI impI)
  show "\<exists>store warnings. loadCache io cachePath lang = Inr (store, warnings)"
    by (rule loadCache_returns)
next
  fix p assume "cachePath = Some p \<and> \<not> existsSync io p"
  then show "loadCache io cachePath lang = Inr (emptyStore, [])"
    by (simp add: loadCache_missing)
next
  fix p raw e1 e2
  assume h: "cachePath = Some p \<and> p \<noteq> [] \<and> existsSync io p
          \<and> readFileSync io p = Inr raw \<and> decode io raw = Inl e1 \<and> JSON_parse io raw = Inl e2"
  then have "readParsed io p = Inl e2"
    by (simp add: readParsed_unparsable)
  with h show "loadCache io cachePath lang =
      Inr (emptyStore, [errCacheReadPrefix io lang @ '' '' @ p @ '': '' @ message e2])"
    by (simp add: loadCache_unreadable)
next
  fix p e
  assume h: "cachePath = Some p \<and> p \<noteq> [] \<and> existsSync io p \<and> readFileSync io p = Inl e"
  then have "readParsed io p = Inl e"
    by (simp add: readParsed_def bindE_def)
  with h show "loadCache io cachePath lang =
      Inr (emptyStore, [errCacheReadPrefix io lang @ '' '' @ p @ '': '' @ message e])"
    by (simp add: loadCache_unreadable)
next
  fix p parsed v
  assume "cachePath = Some p \<and> p \<noteq> [] \<and> existsSync io p
          \<and> readParsed io p = Inr parsed \<and> getProp parsed ''version'' = Inr v
          \<and> v \<noteq> JNum CACHE_VERSION"
  then show "loadCache io cachePath lang = Inr (emptyStore, [])"
    by (simp add: loadCache_version_mismatch)
next
  fix store warnings
  assume "loadCache io cachePath lang = Inr (store, warnings)"
  then show "store = emptyStore \<or>
          (getProp store ''version'' = Inr (JNum CACHE_VERSION)
           \<and> (\<exists>entries. getProp store ''entries'' = Inr entries \<and> truthy entries))"
    by (rule loadCache_store_shape)
qed

theorem loadCache_never_throws_witness:
  "loadCache io_unreadable (Some ''cache.bin'') None =
     Inr (emptyStore, [''Failed to read cache cache.bin: Unexpected token o in JSON''])
   \<and> loadCache io_unreadable (Some ''other.bin'') None = Inr (emptyStore, [])
   \<and> loadCache io_oldVersion (Some ''cache.bin'') None = Inr (emptyStore, [])"
proof -
  have a: "existsSync io_unreadable ''cache.bin''"
    and b: "readFileSync io_unreadable ''cache.bin'' = Inr ''not a cache''"
    and c: "decode io_unreadable ''not a cache'' = Inl (Error ''Data read, but end of buffer not reached'')"
    and d: "JSON_parse io_unreadable ''not a cache'' = Inl (Error ''Unexpected token o in JSON'')"
    and e: "\<not> existsSync io_unreadable ''other.bin''"
    and f: "errCacheReadPrefix io_unreadable None = ''Failed to read cache''"
    by (simp_all add: io_unreadable_def)
  have g: "existsSync io_oldVersion ''cache.bin''"
    and h: "readParsed io_oldVersion ''cache.bin'' = Inr (JObj [(''version'', JNum 0), (''entries'', JObj [])])"
    by (simp_all add: io_oldVersion_def readParsed_def bindE_def tryCatch_def)
  have i: "getProp (JObj [(''version'', JNum 0), (''entries'', JObj [])]) ''version'' = Inr (JNum 0)"
    and j: "JNum 0 \<noteq> JNum CACHE_VERSION"
    by (simp_all add: CACHE_VERSION_def)
  from loadCache_never_throws [of io_unreadable "Some ''cache.bin''" None]
       loadCache_never_throws [of io_unreadable "Some ''other.bin''" None]
       loadCache_never_throws [of io_oldVersion "Some ''cache.bin''" None]
       a b c d e f g h i j
  show ?thesis
    by (metis list.distinct(1) message.simps(1) append_Cons append_Nil)
qed

text \<open>
  Claim C4, as stated: inputs that distribute the same characters differently over the
  five slots never produce the same fingerprint. It fails: \<open>('ab', '')\<close> and \<open>('a', 'b')\<close>
  have the same fingerprint.
\<close>

theorem fingerprint_slots_collide:
  "fingerprintRepresentation (Some ''ab'') (Some '''') (Some '''') (Some '''') (Some '''')
   = fingerprintRepresentation (Some ''a'') (Some ''b'') (Some '''') (Some '''') (Some '''')"
  by (simp add: fingerprintRepresentation_def createHash_def hash_update_def)

text \<open>
  Claim C4, amended. \<open>fingerprintRepresentation\<close> is the SHA-1 digest, in hexadecimal, of
  the plain concatenation of its five inputs in order, an absent input counting as the
  empty string. Nothing marks where one slot ends: two calls whose inputs concatenate to
  the same string return the same fingerprint.
\<close>

theorem fingerprint_of_concatenation:
  "fingerprintRepresentation codeRep styleRep styleText structureRep holisticRep
     = sha1_hex (orEmpty codeRep @ orEmpty styleRep @ orEmpty styleText
                 @ orEmpty structureRep @ orEmpty holisticRep)
   \<and> (\<forall>c s t u h.
        orEmpty c @ orEmpty s @ orEmpty t @ orEmpty u @ orEmpty h
          = orEmpty codeRep @ orEmpty styleRep @ orEmpty styleText
            @ orEmpty structureRep @ orEmpty holisticRep
        \<longrightarrow> fingerprintRepresentation c s t u h
            = fingerprintRepresentation codeRep styleRep styleText structureRep holisticRep)"
  by (simp add: fingerprintRepresentation_def createHash_def hash_update_def hash_digest_hex_def)

theorem fingerprint_of_concatenation_witness:
  "fingerprintRepresentation (Some ''x'') None (Some ''yz'') None None
     = fingerprintRepresentation (Some ''xy'') (Some ''z'') None None None
   \<and> fingerprintRepresentation (Some ''xy'') (Some ''z'') None None None = sha1_hex ''xyz''"
  using fingerprint_of_concatenation [of "Some ''xy''" "Some ''z''" None None None]
  by simp


section \<open>Properties of labels.js\<close>

text \<open>The labels of the five checks that come before \<open>forkCheck\<close>.\<close>

lemma wrapperCheck_label: "wrapperCheck c = Some (l, h) \<Longrightarrow> l = ''wrapper-duplicate''"
  by (auto simp: wrapperCheck_def split: if_splits)

lemma styleCheck_label: "styleCheck c = Some (l, h) \<Longrightarrow> l = ''style-duplicate''"
  by (auto simp: styleCheck_def Let_def split: if_splits)

lemma logicCheck_label: "logicCheck c = Some (l, h) \<Longrightarrow> l = ''logic-duplicate''"
  by (auto simp: logicCheck_def split: if_splits)

lemma copyCheck_label: "copyCheck c = Some (l, h) \<Longrightarrow> l = ''copy-paste-variant''"
  by (auto simp: copyCheck_def split: if_splits)

lemma propCheck_label: "propCheck c = Some (l, h) \<Longrightarrow> l = ''prop-parameterizable''"
  by (auto simp: propCheck_def Let_def split: if_splits)

lemma forkCheck_label: "forkCheck c ls = Some (l, h) \<Longrightarrow> l = ''forked-clone''"
  by (auto simp: forkCheck_def Let_def split: if_splits)

lemma fst_runCheck: "fst (runCheck lh r) = fst lh @ labelOf r"
  by (auto simp: runCheck_def labelOf_def split: option.splits)

lemma labelOf_wrapper: "labelOf (wrapperCheck c) = (if wrapperCheck c = None then [] else [''wrapper-duplicate''])"
  by (auto simp: labelOf_def dest: wrapperCheck_label split: option.splits)
lemma labelOf_style: "labelOf (styleCheck c) = (if styleCheck c = None then [] else [''style-duplicate''])"
  by (auto simp: labelOf_def dest: styleCheck_label split: option.splits)
lemma labelOf_logic: "labelOf (logicCheck c) = (if logicCheck c = None then [] else [''logic-duplicate''])"
  by (auto simp: labelOf_def dest: logicCheck_label split: option.splits)
lemma labelOf_copy: "labelOf (copyCheck c) = (if copyCheck c = None then [] else [''copy-paste-variant''])"
  by (auto simp: labelOf_def dest: copyCheck_label split: option.splits)
lemma labelOf_prop: "labelOf (propCheck c) = (if propCheck c = None then [] else [''prop-parameterizable''])"
  by (auto simp: labelOf_def dest: propCheck_label split: option.splits)
lemma labelOf_fork: "labelOf (forkCheck c ls) = (if forkCheck c ls = None then [] else [''forked-clone''])"
  by (auto simp: labelOf_def dest: forkCheck_label split: option.splits)

lemma labelPair_fst:
  "labelPair cosine getI18n entryA entryB sim cfg = Inr r \<Longrightarrow>
   \<exists>c. buildContext cosine entryA entryB sim cfg (getI18n (language cfg)) = Inr c
     \<and> fst r = earlierLabels c @ labelOf (forkCheck c (earlierLabels c))"
  by (auto simp: labelPair_def Let_def bindE_def fst_runCheck earlierLabels_def
      split: sum.splits)

lemma labelPair_labels:
  "labelPair cosine getI18n entryA entryB sim cfg = Inr (labels, hints) \<Longrightarrow>
   \<exists>c. buildContext cosine entryA entryB sim cfg (getI18n (language cfg)) = Inr c
     \<and> labels = earlierLabels c @ labelOf (forkCheck c (earlierLabels c))"
  using labelPair_fst [of cosine getI18n entryA entryB sim cfg "(labels, hints)"] by simp

lemma buildContext_fields:
  "buildContext cosine entryA entryB sim cfg i = Inr c \<Longrightarrow>
     ctx_similarity c = sim \<and> ctx_config c = cfg
     \<and> (\<exists>la lb. lineCount (source (component entryA)) = Inr la
            \<and> lineCount (source (component entryB)) = Inr lb
            \<and> ctx_lineDiff c = nat \<bar>int la - int lb\<bar>)"
  by (auto simp: buildContext_def bindE_def split: sum.splits)

lemma forkCheck_Some_iff:
  "forkCheck c ls \<noteq> None \<longleftrightarrow>
     (\<not> isDisabled (ctx_config c) ''forked-clone''
      \<and> ctx_similarity c \<ge> similarityThreshold (ctx_config c) \<and> ls = [] \<and> ctx_lineDiff c \<ge> 4)"
  by (auto simp: forkCheck_def Let_def)

lemma earlier_no_fork: "''forked-clone'' \<notin> set (earlierLabels c)"
  by (simp add: earlierLabels_def labelOf_wrapper labelOf_style labelOf_logic labelOf_copy labelOf_prop)

lemma earlier_mem:
  "''wrapper-duplicate'' \<in> set (earlierLabels c) \<longleftrightarrow> wrapperCheck c \<noteq> None"
  "''style-duplicate'' \<in> set (earlierLabels c) \<longleftrightarrow> styleCheck c \<noteq> None"
  "''logic-duplicate'' \<in> set (earlierLabels c) \<longleftrightarrow> logicCheck c \<noteq> None"
  "''copy-paste-variant'' \<in> set (earlierLabels c) \<longleftrightarrow> copyCheck c \<noteq> None"
  "''prop-parameterizable'' \<in> set (earlierLabels c) \<longleftrightarrow> propCheck c \<noteq> None"
  by (simp_all add: earlierLabels_def labelOf_wrapper labelOf_style labelOf_logic labelOf_copy labelOf_prop)

text \<open>
  Claim C8. When \<open>labelPair\<close> returns, \<open>forked-clone\<close> is among the labels only if the
  similarity is at least \<open>similarityThreshold\<close>, the five earlier checks assigned no label
  (so \<open>forked-clone\<close> is the only label) and the line counts of the two sources differ
  by at least 4. Each of the five other labels is assigned exactly when its own check
  on the context matches, whatever the other checks did, so a pair may carry several.
\<close>

theorem labelPair_forked_clone:
  assumes "labelPair cosine getI18n entryA entryB sim cfg = Inr (labels, hints)"
  shows "\<exists>c la lb.
      buildContext cosine entryA entryB sim cfg (getI18n (language cfg)) = Inr c
    \<and> lineCount (source (component entryA)) = Inr la
    \<and> lineCount (source (component entryB)) = Inr lb
    \<and> (''forked-clone'' \<in> set labels \<longrightarrow>
          sim \<ge> similarityThreshold cfg \<and> labels = [''forked-clone'']
          \<and> nat \<bar>int la - int lb\<bar> \<ge> 4
          \<and> wrapperCheck c = None \<and> styleCheck c = None \<and> logicCheck c = None
          \<and> copyCheck c = None \<and> propCheck c = None)
    \<and> (''wrapper-duplicate'' \<in> set labels \<longleftrightarrow> wrapperCheck c \<noteq> None)
    \<and> (''style-duplicate'' \<in> set labels \<longleftrightarrow> styleCheck c \<noteq> None)
    \<and> (''logic-duplicate'' \<in> set labels \<longleftrightarrow> logicCheck c \<noteq> None)
    \<and> (''copy-paste-variant'' \<in> set labels \<longleftrightarrow> copyCheck c \<noteq> None)
    \<and> (''prop-parameterizable'' \<in> set labels \<longleftrightarrow> propCheck c \<noteq> None)"
proof -
  from assms obtain c where
    bc: "buildContext cosine entryA entryB sim cfg (getI18n (language cfg)) = Inr c"
    and ls: "labels = earlierLabels c @ labelOf (forkCheck c (earlierLabels c))"
    using labelPair_labels by blast
  from bc obtain la lb where
    f: "ctx_similarity c = sim" "ctx_config c = cfg"
       "lineCount (source (component entryA)) = Inr la"
       "lineCount (source (component entryB)) = Inr lb"
       "ctx_lineDiff c = nat \<bar>int la - int lb\<bar>"
    using buildContext_fields by blast
  have fork: "''forked-clone'' \<in> set labels \<longrightarrow>
          sim \<ge> similarityThreshold cfg \<and> labels = [''forked-clone'']
          \<and> nat \<bar>int la - int lb\<bar> \<ge> 4
          \<and> wrapperCheck c = None \<and> styleCheck c = None \<and> logicCheck c = None
          \<and> copyCheck c = None \<and> propCheck c = None"
  proof
    assume m: "''forked-clone'' \<in> set labels"
    with ls earlier_no_fork have nn: "forkCheck c (earlierLabels c) \<noteq> None"
      by (auto simp: labelOf_def split: option.splits)
    then have e: "ctx_similarity c \<ge> similarityThreshold (ctx_config c)"
      "earlierLabels c = []" "ctx_lineDiff c \<ge> 4"
      using forkCheck_Some_iff [of c "earlierLabels c"] by blast+
    from e(2) have none: "wrapperCheck c = None \<and> styleCheck c = None \<and> logicCheck c = None
          \<and> copyCheck c = None \<and> propCheck c = None"
      by (simp add: earlierLabels_def labelOf_def split: option.splits)
    from nn ls e(2) have "labels = [''forked-clone'']"
      by (simp add: labelOf_fork)
    with e f none show "sim \<ge> similarityThreshold cfg \<and> labels = [''forked-clone'']
          \<and> nat \<bar>int la - int lb\<bar> \<ge> 4
          \<and> wrapperCheck c = None \<and> styleCheck c = None \<and> logicCheck c = None
          \<and> copyCheck c = None \<and> propCheck c = None"
      by simp
  qed
  have others:
    "''wrapper-duplicate'' \<in> set labels \<longleftrightarrow> wrapperCheck c \<noteq> None"
    "''style-duplicate'' \<in> set labels \<longleftrightarrow> styleCheck c \<noteq> None"
    "''logic-duplicate'' \<in> set labels \<longleftrightarrow> logicCheck c \<noteq> None"
    "''copy-paste-variant'' \<in> set labels \<longleftrightarrow> copyCheck c \<noteq> None"
    "''prop-parameterizable'' \<in> set labels \<longleftrightarrow> propCheck c \<noteq> None"
    using ls by (simp_all add: earlier_mem labelOf_fork)
  from bc f fork others show ?thesis
    by blast
qed


lemma tokenize_x: "tokenize (Some ''x'') = Inr [''x'']"
  by (simp add: tokenize_def toLowerCase_def toLowerChar_def isWordChar_def)

lemma tokenize_exFiveLines: "tokenize (Some exFiveLines) = Inr [''b'', ''c'']"
  by (simp add: tokenize_def toLowerCase_def toLowerChar_def isWordChar_def exFiveLines_def
      newline_def)

lemma lineCount_x: "lineCount (Some ''x'') = Inr 1"
  by (simp add: lineCount_def newline_def)

lemma lineCount_exFiveLines: "lineCount (Some exFiveLines) = Inr 5"
  by (simp add: lineCount_def exFiveLines_def newline_def)

lemmas labelPair_eval =
  labelPair_def buildContext_def bindE_def exEntry_def exComponent_def exConfig_def
  exGetI18n_def exI18n_def exWrapper_def exWithSource_def exNoTokens_def overlap_def
  textOverlap_def tokenize_x tokenize_exFiveLines lineCount_x lineCount_exFiveLines jsSet_def
  runCheck_def wrapperCheck_def styleCheck_def logicCheck_def copyCheck_def propCheck_def
  forkCheck_def isDisabled_def propNamesLength_def listLength_def cosine_spec_def l2norm_def

lemma labelPair_two_labels:
  "labelPair cosine_spec exGetI18n (exWrapper (exEntry ''A'' ''A'' ''a/A.jsx'' [1, 0]))
       (exWrapper (exEntry ''B'' ''B'' ''b/B.jsx'' [1, 0])) 1 exConfig
     = Inr ([''wrapper-duplicate'', ''copy-paste-variant''],
            [''merge the wrappers'', ''remove the copy''])"
  by (simp add: labelPair_eval)

lemma labelPair_fork_only:
  "labelPair cosine_spec exGetI18n (exEntry ''A'' ''A'' ''a/A.jsx'' [1, 0])
       (exWithSource exFiveLines (exEntry ''B'' ''B'' ''b/B.jsx'' [1, 0])) (9 / 10) exConfig
     = Inr ([''forked-clone''], [''reconcile the fork''])"
  by (simp add: labelPair_eval)

theorem labelPair_forked_clone_witness:
  "labelPair cosine_spec exGetI18n (exWrapper (exEntry ''A'' ''A'' ''a/A.jsx'' [1, 0]))
       (exWrapper (exEntry ''B'' ''B'' ''b/B.jsx'' [1, 0])) 1 exConfig
     = Inr ([''wrapper-duplicate'', ''copy-paste-variant''],
            [''merge the wrappers'', ''remove the copy''])
   \<and> labelPair cosine_spec exGetI18n (exEntry ''A'' ''A'' ''a/A.jsx'' [1, 0])
       (exWithSource exFiveLines (exEntry ''B'' ''B'' ''b/B.jsx'' [1, 0])) (9 / 10) exConfig
     = Inr ([''forked-clone''], [''reconcile the fork''])
   \<and> (\<exists>c. buildContext cosine_spec (exEntry ''A'' ''A'' ''a/A.jsx'' [1, 0])
            (exWithSource exFiveLines (exEntry ''B'' ''B'' ''b/B.jsx'' [1, 0])) (9 / 10) exConfig
            (exGetI18n (language exConfig)) = Inr c
          \<and> wrapperCheck c = None \<and> styleCheck c = None \<and> logicCheck c = None
          \<and> copyCheck c = None \<and> propCheck c = None)"
  using labelPair_forked_clone [OF labelPair_fork_only] labelPair_two_labels labelPair_fork_only
  by auto

lemma overlap_throws_iff:
  "(\<exists>e. overlap la lb = Inl e) \<longleftrightarrow> (la = None \<or> (la \<noteq> Some [] \<and> lb = None))"
  by (auto simp: overlap_def Let_def split: option.splits)

lemma overlap_empty: "la = [] \<or> lb = [] \<Longrightarrow> overlap (Some la) (Some lb) = Inr 0"
  by (auto simp: overlap_def)

lemma overlap_Some_total: "\<exists>r. overlap (Some la) (Some lb) = Inr r"
  by (auto simp: overlap_def Let_def)

lemma overlap_Some_not_Inl: "overlap (Some la) (Some lb) = Inl e \<Longrightarrow> False"
  by (auto simp: overlap_def Let_def split: if_splits)

lemma tokenize_throws_iff: "(\<exists>e. tokenize t = Inl e) \<longleftrightarrow> t = None"
  by (auto simp: tokenize_def split: option.splits)

lemma lineCount_throws_iff: "(\<exists>e. lineCount t = Inl e) \<longleftrightarrow> t = None"
  by (auto simp: lineCount_def split: option.splits)

lemma textOverlap_throws_iff: "(\<exists>e. textOverlap a b = Inl e) \<longleftrightarrow> (a = None \<or> b = None)"
proof (cases a)
  case None
  then show ?thesis by (simp add: textOverlap_def tokenize_def bindE_def)
next
  case (Some sa)
  show ?thesis
  proof (cases b)
    case None
    with Some show ?thesis by (simp add: textOverlap_def tokenize_def bindE_def)
  next
    case (Some sb)
    with \<open>a = Some sa\<close> show ?thesis
      by (auto simp: textOverlap_def tokenize_def bindE_def dest: overlap_Some_not_Inl)
  qed
qed

lemma sum_not_Inl: "(\<nexists>e. x = Inl e) \<longleftrightarrow> (\<exists>r. x = Inr r)"
  by (cases x) auto

lemma buildContext_throws_iff:
  "(\<exists>e. buildContext cosine entryA entryB sim cfg i = Inl e) \<longleftrightarrow>
     ((\<exists>e. overlap (logicTokens (component entryA)) (logicTokens (component entryB)) = Inl e)
      \<or> (\<exists>e. overlap (literals (component entryA)) (literals (component entryB)) = Inl e)
      \<or> (\<exists>e. textOverlap (source (component entryA)) (source (component entryB)) = Inl e)
      \<or> (\<exists>e. lineCount (source (component entryA)) = Inl e)
      \<or> (\<exists>e. lineCount (source (component entryB)) = Inl e))"
  by (auto simp: buildContext_def bindE_def split: sum.splits)

lemma labelPair_throws_buildContext:
  "(\<exists>e. labelPair cosine getI18n entryA entryB sim cfg = Inl e) \<longleftrightarrow>
   (\<exists>e. buildContext cosine entryA entryB sim cfg (getI18n (language cfg)) = Inl e)"
  by (auto simp: labelPair_def Let_def bindE_def split: sum.splits)

lemma labelPair_throws_iff:
  "(\<exists>e. labelPair cosine getI18n entryA entryB sim cfg = Inl e) \<longleftrightarrow>
     (logicTokens (component entryA) = None
      \<or> (logicTokens (component entryA) \<noteq> Some [] \<and> logicTokens (component entryB) = None)
      \<or> literals (component entryA) = None
      \<or> (literals (component entryA) \<noteq> Some [] \<and> literals (component entryB) = None)
      \<or> source (component entryA) = None
      \<or> source (component entryB) = None)"
  unfolding labelPair_throws_buildContext buildContext_throws_iff overlap_throws_iff
    textOverlap_throws_iff lineCount_throws_iff
  by auto

lemma hasProps_defaulted: "hasProps (defaultedLists c) = hasProps c"
  by (auto simp: hasProps_def propNamesLength_def defaultedLists_def listLength_def
      split: option.splits)

lemma propNamesLength_defaulted: "propNamesLength (defaultedLists c) = propNamesLength c"
  by (auto simp: propNamesLength_def defaultedLists_def listLength_def split: option.splits)

lemma listLength_orEmpty: "listLength (Some (orEmptyList xs)) = listLength xs"
  by (cases xs) (simp_all add: listLength_def)

lemma isWrapperLike_defaulted: "isWrapperLike (defaultedLists c) = isWrapperLike c"
  unfolding isWrapperLike_def hasProps_defaulted
  by (simp add: defaultedLists_def listLength_orEmpty)

lemma dominantTag_defaulted: "dominantTag (defaultedLists c) = dominantTag c"
  by (simp add: dominantTag_def defaultedLists_def)

lemma componentSignal_defaulted: "componentSignal (defaultedLists c) = componentSignal c"
  by (simp add: componentSignal_def defaultedLists_def split: option.splits)

lemma differentWrappedBases_defaulted:
  "differentWrappedBases (Some (orEmptyList ra)) (Some (orEmptyList rb)) = differentWrappedBases ra rb"
  by (simp add: differentWrappedBases_def)

lemma compositionSuppression_defaulted:
  "compositionSuppression (defaultedLists a) (defaultedLists b) = compositionSuppression a b"
  by (simp add: compositionSuppression_def defaultedLists_def)

lemma wrapperSuppression_defaulted:
  "wrapperSuppression (defaultedLists a) (defaultedLists b) = wrapperSuppression a b"
  unfolding wrapperSuppression_def isWrapperLike_defaulted dominantTag_defaulted
  by (simp add: defaultedLists_def listLength_orEmpty differentWrappedBases_defaulted)

lemma lowSignalSuppression_defaulted:
  "lowSignalSuppression (defaultedLists a) (defaultedLists b) = lowSignalSuppression a b"
  unfolding lowSignalSuppression_def isWrapperLike_defaulted hasProps_defaulted componentSignal_defaulted
  by (simp add: defaultedLists_def)

lemma component_defaultedEntry: "component (defaultedEntry e) = defaultedLists (component e)"
  by (simp add: defaultedEntry_def)

lemma suppressPair_defaulted:
  "suppressPair (defaultedEntry ea) (defaultedEntry eb) = suppressPair ea eb"
  unfolding suppressPair_def component_defaultedEntry compositionSuppression_defaulted
      wrapperSuppression_defaulted lowSignalSuppression_defaulted
  by (rule refl)

lemma buildContext_defaulted:
  "buildContext cosine (defaultedEntry ea) (defaultedEntry eb) sim cfg i =
     (case buildContext cosine ea eb sim cfg i of
        Inl e \<Rightarrow> Inl e
      | Inr c \<Rightarrow> Inr (c\<lparr>ctx_entryA := defaultedEntry ea, ctx_entryB := defaultedEntry eb\<rparr>))"
  by (simp add: buildContext_def bindE_def defaultedEntry_def propNamesLength_defaulted
      split: sum.splits) (simp add: defaultedLists_def)

lemma isWrapper_defaulted: "isWrapper (defaultedLists c) = isWrapper c"
  by (simp add: defaultedLists_def)

lemma labelPair_defaulted:
  "labelPair cosine getI18n (defaultedEntry ea) (defaultedEntry eb) sim cfg
     = labelPair cosine getI18n ea eb sim cfg"
proof (cases "buildContext cosine ea eb sim cfg (getI18n (language cfg))")
  case (Inl e)
  then show ?thesis
    by (simp add: labelPair_def Let_def bindE_def buildContext_defaulted)
next
  case (Inr c)
  then have ab: "ctx_entryA c = ea" "ctx_entryB c = eb"
    by (auto simp: buildContext_def bindE_def split: sum.splits)
  let ?c = "c\<lparr>ctx_entryA := defaultedEntry ea, ctx_entryB := defaultedEntry eb\<rparr>"
  have w: "wrapperCheck ?c = wrapperCheck c"
    using ab by (simp add: wrapperCheck_def component_defaultedEntry isWrapper_defaulted)
  have s: "styleCheck ?c = styleCheck c"
    by (auto simp: styleCheck_def Let_def)
  have l: "logicCheck ?c = logicCheck c"
    by (simp add: logicCheck_def)
  have cp: "copyCheck ?c = copyCheck c"
    by (simp add: copyCheck_def)
  have pr: "propCheck ?c = propCheck c"
    by (auto simp: propCheck_def Let_def)
  have f: "\<And>ls. forkCheck ?c ls = forkCheck c ls"
    by (auto simp: forkCheck_def Let_def)
  show ?thesis
    unfolding labelPair_def Let_def buildContext_defaulted Inr
    by (simp only: bindE_def sum.case w s l cp pr f)
qed

text \<open>
  Claim C10, as stated: a component lacking \<open>logicTokens\<close> or \<open>literals\<close> makes \<open>labelPair\<close>
  throw. It fails when the lists of the first entry are empty arrays: \<open>overlap\<close> returns
  0 at \<open>!listA.length\<close> and never reads the absent list of the second entry.
\<close>

theorem labelPair_absent_list_no_throw:
  "logicTokens (component (exNoTokens (exEntry ''B'' ''B'' ''b/B.jsx'' [1, 0]))) = None
   \<and> literals (component (exNoTokens (exEntry ''B'' ''B'' ''b/B.jsx'' [1, 0]))) = None
   \<and> labelPair cosine_spec exGetI18n (exEntry ''A'' ''A'' ''a/A.jsx'' [1, 0])
         (exNoTokens (exEntry ''B'' ''B'' ''b/B.jsx'' [1, 0])) (9 / 10) exConfig
       = Inr ([''copy-paste-variant''], [''remove the copy''])"
  by (simp add: labelPair_eval)

text \<open>
  Claim C10, amended. \<open>labelPair\<close> throws exactly when the first entry's \<open>logicTokens\<close> (or
  \<open>literals\<close>) is absent, or it is a non-empty array and the second entry's is absent,
  or a \<open>source\<close> is absent: \<open>overlap\<close> reads \<open>listA.length\<close> first and \<open>listB.length\<close> only
  when the first list is not empty, both without a default. So when both components
  have the two lists and a source, \<open>labelPair\<close> returns, and \<open>overlap\<close> of two arrays is 0
  whenever either is empty. The other metadata lists (\<open>componentRefs\<close>, \<open>hooks\<close>,
  \<open>jsxTags\<close>, \<open>textNodes\<close>, prop names) are defaulted: replacing the absent ones by
  empty lists changes neither the suppression heuristics nor \<open>labelPair\<close>.
\<close>

theorem labelPair_throws_when_list_read_absent:
  "((\<exists>e. labelPair cosine getI18n entryA entryB sim cfg = Inl e) \<longleftrightarrow>
      (logicTokens (component entryA) = None
       \<or> (logicTokens (component entryA) \<noteq> Some [] \<and> logicTokens (component entryB) = None)
       \<or> literals (component entryA) = None
       \<or> (literals (component entryA) \<noteq> Some [] \<and> literals (component entryB) = None)
       \<or> source (component entryA) = None
       \<or> source (component entryB) = None))
   \<and> (logicTokens (component entryA) \<noteq> None \<and> logicTokens (component entryB) \<noteq> None
        \<and> literals (component entryA) \<noteq> None \<and> literals (component entryB) \<noteq> None
        \<and> source (component entryA) \<noteq> None \<and> source (component entryB) \<noteq> None
      \<longrightarrow> (\<exists>r. labelPair cosine getI18n entryA entryB sim cfg = Inr r))
   \<and> (\<forall>la lb. la = [] \<or> lb = [] \<longrightarrow> overlap (Some la) (Some lb) = Inr 0)
   \<and> suppressPair (defaultedEntry entryA) (defaultedEntry entryB) = suppressPair entryA entryB
   \<and> labelPair cosine getI18n (defaultedEntry entryA) (defaultedEntry entryB) sim cfg
       = labelPair cosine getI18n entryA entryB sim cfg"
proof (intro conjI)
  show iff: "(\<exists>e. labelPair cosine getI18n entryA entryB sim cfg = Inl e) \<longleftrightarrow>
      (logicTokens (component entryA) = None
       \<or> (logicTokens (component entryA) \<noteq> Some [] \<and> logicTokens (component entryB) = None)
       \<or> literals (component entryA) = None
       \<or> (literals (component entryA) \<noteq> Some [] \<and> literals (component entryB) = None)
       \<or> source (component entryA) = None
       \<or> source (component entryB) = None)"
    by (rule labelPair_throws_iff)
  show "logicTokens (component entryA) \<noteq> None \<and> logicTokens (component entryB) \<noteq> None
        \<and> literals (component entryA) \<noteq> None \<and> literals (component entryB) \<noteq> None
        \<and> source (component entryA) \<noteq> None \<and> source (component entryB) \<noteq> None
      \<longrightarrow> (\<exists>r. labelPair cosine getI18n entryA entryB sim cfg = Inr r)"
  proof
    assume h: "logicTokens (component entryA) \<noteq> None \<and> logicTokens (component entryB) \<noteq> None
        \<and> literals (component entryA) \<noteq> None \<and> literals (component entryB) \<noteq> None
        \<and> source (component entryA) \<noteq> None \<and> source (component entryB) \<noteq> None"
    with iff have "\<nexists>e. labelPair cosine getI18n entryA entryB sim cfg = Inl e"
      by simp
    then show "\<exists>r. labelPair cosine getI18n entryA entryB sim cfg = Inr r"
      using sum_not_Inl [of "labelPair cosine getI18n entryA entryB sim cfg"] by blast
  qed
  show "\<forall>la lb. la = [] \<or> lb = [] \<longrightarrow> overlap (Some la) (Some lb) = Inr 0"
    by (simp add: overlap_empty)
  show "suppressPair (defaultedEntry entryA) (defaultedEntry entryB) = suppressPair entryA entryB"
    by (rule suppressPair_defaulted)
  show "labelPair cosine getI18n (defaultedEntry entryA) (defaultedEntry entryB) sim cfg
       = labelPair cosine getI18n entryA entryB sim cfg"
    by (rule labelPair_defaulted)
qed

theorem labelPair_throws_when_list_read_absent_witness:
  "(\<exists>e. labelPair cosine_spec exGetI18n
          (exNoTokens (exEntry ''A'' ''A'' ''a/A.jsx'' [1, 0]))
          (exEntry ''B'' ''B'' ''b/B.jsx'' [1, 0]) (9 / 10) exConfig = Inl e)
   \<and> (\<exists>r. labelPair cosine_spec exGetI18n (exEntry ''A'' ''A'' ''a/A.jsx'' [1, 0])
          (exEntry ''B'' ''B'' ''b/B.jsx'' [1, 0]) (9 / 10) exConfig = Inr r)
   \<and> overlap (Some []) (Some [''useState'']) = Inr 0"
  using labelPair_throws_when_list_read_absent [of cosine_spec exGetI18n
          "exNoTokens (exEntry ''A'' ''A'' ''a/A.jsx'' [1, 0])"
          "exEntry ''B'' ''B'' ''b/B.jsx'' [1, 0]" "9 / 10" exConfig]
        labelPair_throws_when_list_read_absent [of cosine_spec exGetI18n
          "exEntry ''A'' ''A'' ''a/A.jsx'' [1, 0]"
          "exEntry ''B'' ''B'' ''b/B.jsx'' [1, 0]" "9 / 10" exConfig]
  by (simp add: exNoTokens_def exEntry_def exComponent_def)

section \<open>Properties of the path-distance gate\<close>











lemma reasonCount_recordSimilarity [simp]:
  "reasonCount r (recordSimilarity ei ej s st) = reasonCount r st"
  by (simp add: reasonCount_def recordSimilarity_def)



lemma processPair_past_gate:
  "\<not> compareFiltered cfg ei ej \<Longrightarrow>
   similarityThreshold cfg \<le> cosine (vector ei) (vector ej) \<Longrightarrow>
   cosine (vector ei) (vector ej)
     - (case maxSimilarityThreshold cfg of None \<Rightarrow> 1 | Some m \<Rightarrow> m) \<le> epsilon \<Longrightarrow>
   \<not> shouldSkipByPath (filePath (component ei)) (filePath (component ej)) cfg \<Longrightarrow>
   processPair cosine getI18n cfg ei ej st =
     (case suppressPair ei ej of
        Some suppression \<Rightarrow>
          Inr (suppress suppression (recordSimilarity ei ej (cosine (vector ei) (vector ej)) st))
      | None \<Rightarrow>
          bindE (labelPair cosine getI18n ei ej (cosine (vector ei) (vector ej)) cfg) (\<lambda>lh.
            Inr ((recordSimilarity ei ej (cosine (vector ei) (vector ej)) st)
                   \<lparr> st_pairs := st_pairs st @
                       [\<lparr> pair_a = comp_id (component ei),
                          pair_b = comp_id (component ej),
                          pair_similarity = toFixed4 (cosine (vector ei) (vector ej)),
                          pair_category =
                            (if cosine (vector ei) (vector ej) \<ge> highSimilarityThreshold cfg
                             then ''almost-identical'' else ''near-duplicate''),
                          pair_labels = fst lh,
                          pair_hints = snd lh \<rparr>] \<rparr>)))"
proof -
  have "\<And>s. st_pairs (recordSimilarity ei ej s st) = st_pairs st"
    by (simp add: recordSimilarity_def)
  then show "\<not> compareFiltered cfg ei ej \<Longrightarrow>
   similarityThreshold cfg \<le> cosine (vector ei) (vector ej) \<Longrightarrow>
   cosine (vector ei) (vector ej)
     - (case maxSimilarityThreshold cfg of None \<Rightarrow> 1 | Some m \<Rightarrow> m) \<le> epsilon \<Longrightarrow>
   \<not> shouldSkipByPath (filePath (component ei)) (filePath (component ej)) cfg \<Longrightarrow>
   ?thesis"
    by (cases "suppressPair ei ej") (simp_all add: processPair_def Let_def)
qed



lemma cosine_spec_unit: "cosine_spec [1, 0] [1, 0] = 1"
  by (simp add: cosine_spec_def l2norm_def)



lemma toFixed4_1: "toFixed4 1 = 1"
  by (simp add: toFixed4_def)

text \<open>
  The loop body on two of the concrete entries, for a configuration with compare mode
  off and no analysis disabled: the entries have the same one-token source and nothing
  else, so no heuristic suppresses the pair and its one label is \<open>copy-paste-variant\<close>.
\<close>

lemma suppressPair_exEntry: "suppressPair (exEntry ia na pa va) (exEntry ib nb pb vb) = None"
  by (simp add: suppressPair_def exEntry_def exComponent_def compositionSuppression_def
      wrapperSuppression_def lowSignalSuppression_def isWrapperLike_def hasProps_def
      propNamesLength_def countNonEmptyLines_def newline_def trim_def isSpace_def Let_def)

lemma labelPair_exEntry:
  assumes "disableAnalyses cfg = Some []"
  shows "labelPair cosine_spec exGetI18n (exEntry ia na pa va) (exEntry ib nb pb vb) s cfg
     = Inr ([''copy-paste-variant''], [''remove the copy''])"
  using assms
  by (simp add: labelPair_def buildContext_def bindE_def exEntry_def exComponent_def
      exGetI18n_def exI18n_def overlap_def
      textOverlap_def tokenize_x lineCount_x jsSet_def
      runCheck_def wrapperCheck_def styleCheck_def logicCheck_def copyCheck_def propCheck_def
      forkCheck_def isDisabled_def propNamesLength_def listLength_def cosine_spec_unit)

lemma processPair_exEntry:
  assumes "compareGlobs cfg = Some []" and "disableAnalyses cfg = Some []"
    and "similarityThreshold cfg \<le> cosine_spec va vb"
    and "cosine_spec va vb - (case maxSimilarityThreshold cfg of None \<Rightarrow> 1 | Some m \<Rightarrow> m)
           \<le> epsilon"
    and "\<not> shouldSkipByPath (Some pa) (Some pb) cfg"
  shows "processPair cosine_spec exGetI18n cfg (exEntry ia na pa va) (exEntry ib nb pb vb) st
     = Inr ((recordSimilarity (exEntry ia na pa va) (exEntry ib nb pb vb) (cosine_spec va vb) st)
              \<lparr> st_pairs := st_pairs st @
                  [\<lparr> pair_a = ia, pair_b = ib, pair_similarity = toFixed4 (cosine_spec va vb),
                     pair_category = (if cosine_spec va vb \<ge> highSimilarityThreshold cfg
                                      then ''almost-identical'' else ''near-duplicate''),
                     pair_labels = [''copy-paste-variant''],
                     pair_hints = [''remove the copy''] \<rparr>] \<rparr>)"
proof -
  have c: "\<not> compareFiltered cfg (exEntry ia na pa va) (exEntry ib nb pb vb)"
    using assms(1) by (simp add: compareFiltered_def compareEnabled_def)
  have v: "vector (exEntry ia na pa va) = va" "vector (exEntry ib nb pb vb) = vb"
    "filePath (component (exEntry ia na pa va)) = Some pa"
    "filePath (component (exEntry ib nb pb vb)) = Some pb"
    "comp_id (component (exEntry ia na pa va)) = ia"
    "comp_id (component (exEntry ib nb pb vb)) = ib"
    by (simp_all add: exEntry_def exComponent_def)
  from processPair_past_gate [of cfg "exEntry ia na pa va" "exEntry ib nb pb vb" cosine_spec
      exGetI18n st] c assms(3-5)
  show ?thesis
    unfolding v by (simp add: suppressPair_exEntry labelPair_exEntry [OF assms(2)] bindE_def)
qed


section \<open>Properties of the vector combiner\<close>

lemma sum_squares_nonneg: "0 \<le> sum_list (map (\<lambda>x. x * x) (v::real list))"
  by (induction v) simp_all

lemma sum_squares_scaled:
  "sum_list (map (\<lambda>x. (x / n) * (x / n)) (v::real list)) = sum_list (map (\<lambda>x. x * x) v) / (n * n)"
  by (induction v) (simp_all add: add_divide_distrib)

lemma l2norm_nonneg: "0 \<le> l2norm v"
  by (simp add: l2norm_def sum_squares_nonneg)

lemma l2norm_normalize: "l2norm (normalizeVec v) = (if l2norm v = 0 then 0 else 1)"
proof (cases "l2norm v = 0")
  case True
  then show ?thesis by (simp add: normalizeVec_def)
next
  case False
  let ?q = "sum_list (map (\<lambda>x. x * x) v)"
  have q: "l2norm v * l2norm v = ?q"
    by (simp add: l2norm_def sum_squares_nonneg)
  from False have "?q \<noteq> 0"
    by (auto simp: l2norm_def)
  have "l2norm (normalizeVec v) = sqrt (?q / (l2norm v * l2norm v))"
    using False sum_squares_scaled[of "l2norm v" v]
    by (simp add: normalizeVec_def l2norm_def[of "map _ _"] o_def)
  also have "\<dots> = sqrt 1"
    using q \<open>?q \<noteq> 0\<close> by simp
  finally show ?thesis using False by simp
qed

lemma sum_squares_zero_iff: "sum_list (map (\<lambda>x. x * x) (v::real list)) = 0 \<longleftrightarrow> (\<forall>x\<in>set v. x = 0)"
proof (induction v)
  case Nil
  then show ?case by simp
next
  case (Cons a v)
  have "0 \<le> a * a" by simp
  with sum_squares_nonneg[of v] have
    "a * a + sum_list (map (\<lambda>x. x * x) v) = 0 \<longleftrightarrow> a * a = 0 \<and> sum_list (map (\<lambda>x. x * x) v) = 0"
    by (simp add: add_nonneg_eq_0_iff)
  with Cons show ?case by auto
qed

lemma l2norm_zero_iff: "l2norm v = 0 \<longleftrightarrow> (\<forall>x\<in>set v. x = 0)"
  by (simp add: l2norm_def sum_squares_zero_iff)

lemma length_normalize: "length (normalizeVec v) = length v"
  by (simp add: normalizeVec_def)

lemma addPart_map:
  "addPart m T (map f [0..<m]) p = map (\<lambda>i. f i + fst p ! i * (snd p / T)) [0..<m]"
  by (simp add: addPart_def)

lemma replicate_as_map: "replicate m (0::real) = map (\<lambda>i. 0) [0..<m]"
  by (simp add: map_replicate_const)

lemma weightedParts_all:
  assumes "c \<noteq> []" "s \<noteq> []" "t \<noteq> []" "h \<noteq> []"
    and "0 < spreadKey (w_code DEFAULT_WEIGHT) (w_code wt)"
    and "0 < (if hss = Some False then 0 else spreadKey (w_style DEFAULT_WEIGHT) (w_style wt))"
    and "0 < spreadKey (w_structure DEFAULT_WEIGHT) (w_structure wt)"
    and "0 < spreadKey (w_holistic DEFAULT_WEIGHT) (w_holistic wt)"
  shows "weightedParts (Some c) (Some s) (Some t) (Some h) wt hss =
     [(c, spreadKey (w_code DEFAULT_WEIGHT) (w_code wt)),
      (s, spreadKey (w_style DEFAULT_WEIGHT) (w_style wt)),
      (t, spreadKey (w_structure DEFAULT_WEIGHT) (w_structure wt)),
      (h, spreadKey (w_holistic DEFAULT_WEIGHT) (w_holistic wt))]"
  using assms by (auto simp: weightedParts_def Let_def split: if_splits)

lemma combine_parts4:
  "(case [(c, wc), (s, ws), (t, wt), (h, wh)] of
      [] \<Rightarrow> []
    | p # ps \<Rightarrow>
        (let vecSize = foldl min (length (fst p)) (map (\<lambda>part. length (fst part)) ps);
             totalWeight = foldl (+) 0 (map snd [(c, wc), (s, ws), (t, wt), (h, wh)]);
             combined = foldl (addPart vecSize totalWeight) (replicate vecSize 0)
                          [(c, wc), (s, ws), (t, wt), (h, wh)]
         in normalizeVec combined))
   = normalizeVec (weightedSum_spec c s t h wc ws wt wh)"
  by (simp add: Let_def replicate_as_map addPart_map weightedSum_spec_def)

text \<open>
  Claim C6, as stated: with four non-empty vectors and positive weights the combined
  vector has L2 norm 1. It fails when the weighted sum is the zero vector, as for four
  zero embeddings: \<open>normalize\<close> leaves a vector of norm zero unchanged.
\<close>

theorem combineVectors_zero_sum:
  "combineVectors (Some [0, 0]) (Some [0, 0]) (Some [0, 0]) (Some [0, 0]) DEFAULT_WEIGHT (Some True)
     = [0, 0]
   \<and> l2norm (combineVectors (Some [0, 0]) (Some [0, 0]) (Some [0, 0]) (Some [0, 0])
               DEFAULT_WEIGHT (Some True)) = 0"
  by (simp add: combineVectors_def weightedParts_def DEFAULT_WEIGHT_def spreadKey_def Let_def
      addPart_def normalizeVec_def l2norm_def)

text \<open>
  Claim C6, amended. With four non-empty vectors and positive effective weights, every
  part survives the drop step and \<open>combineVectors\<close> returns the normalized weighted sum:
  the weights divided by their total (so that they sum to 1), the vectors cut to the
  shortest of the four lengths, summed element-wise. The result has that shortest length,
  and its L2 norm is 1 unless the weighted sum is zero everywhere, in which case it is
  returned unchanged and has norm 0. (Numbers are reals here: the norm is exactly 1.)
\<close>

theorem combineVectors_unit_norm:
  assumes "c \<noteq> []" "s \<noteq> []" "t \<noteq> []" "h \<noteq> []"
    and "wc = spreadKey (w_code DEFAULT_WEIGHT) (w_code wt)"
    and "ws = spreadKey (w_style DEFAULT_WEIGHT) (w_style wt)"
    and "wu = spreadKey (w_structure DEFAULT_WEIGHT) (w_structure wt)"
    and "wh = spreadKey (w_holistic DEFAULT_WEIGHT) (w_holistic wt)"
    and "0 < wc" "0 < (if hasStyleSignal = Some False then 0 else ws)" "0 < wu" "0 < wh"
  shows "combineVectors (Some c) (Some s) (Some t) (Some h) wt hasStyleSignal
           = normalizeVec (weightedSum_spec c s t h wc ws wu wh)
    \<and> wc / (wc + ws + wu + wh) + ws / (wc + ws + wu + wh)
        + wu / (wc + ws + wu + wh) + wh / (wc + ws + wu + wh) = 1
    \<and> length (combineVectors (Some c) (Some s) (Some t) (Some h) wt hasStyleSignal)
        = min (min (min (length c) (length s)) (length t)) (length h)
    \<and> l2norm (combineVectors (Some c) (Some s) (Some t) (Some h) wt hasStyleSignal)
        = (if \<forall>x\<in>set (weightedSum_spec c s t h wc ws wu wh). x = 0 then 0 else 1)"
proof -
  have parts: "weightedParts (Some c) (Some s) (Some t) (Some h) wt hasStyleSignal
      = [(c, wc), (s, ws), (t, wu), (h, wh)]"
  proof -
    have p: "0 < spreadKey (w_code DEFAULT_WEIGHT) (w_code wt)"
      "0 < (if hasStyleSignal = Some False then 0
            else spreadKey (w_style DEFAULT_WEIGHT) (w_style wt))"
      "0 < spreadKey (w_structure DEFAULT_WEIGHT) (w_structure wt)"
      "0 < spreadKey (w_holistic DEFAULT_WEIGHT) (w_holistic wt)"
      using assms(9-12) unfolding assms(5-8) by simp_all
    show ?thesis
      unfolding assms(5-8) by (rule weightedParts_all [OF assms(1-4) p])
  qed
  have eq: "combineVectors (Some c) (Some s) (Some t) (Some h) wt hasStyleSignal
           = normalizeVec (weightedSum_spec c s t h wc ws wu wh)"
    unfolding combineVectors_def parts Let_def
    using combine_parts4 [of c wc s ws t wu h wh] by (simp add: Let_def)
  from assms have pos: "0 < ws"
    by (simp split: if_splits)
  with assms have "wc + ws + wu + wh \<noteq> 0"
    by simp
  then have one: "wc / (wc + ws + wu + wh) + ws / (wc + ws + wu + wh)
        + wu / (wc + ws + wu + wh) + wh / (wc + ws + wu + wh) = 1"
    by (simp add: add_divide_distrib [symmetric])
  have len: "length (normalizeVec (weightedSum_spec c s t h wc ws wu wh))
        = min (min (min (length c) (length s)) (length t)) (length h)"
    by (simp add: length_normalize weightedSum_spec_def)
  have nrm: "l2norm (normalizeVec (weightedSum_spec c s t h wc ws wu wh))
        = (if \<forall>x\<in>set (weightedSum_spec c s t h wc ws wu wh). x = 0 then 0 else 1)"
    by (simp add: l2norm_normalize l2norm_zero_iff)
  from eq one len nrm show ?thesis
    by simp
qed

lemma sqrt_25: "sqrt 25 = 5"
  using real_sqrt_abs [of 5] by simp

theorem combineVectors_unit_norm_witness:
  "combineVectors (Some [3, 4]) (Some [3, 4]) (Some [3, 4]) (Some [3, 4, 7]) DEFAULT_WEIGHT (Some True)
     = [3 / 5, 4 / 5]
   \<and> l2norm (combineVectors (Some [3, 4]) (Some [3, 4]) (Some [3, 4]) (Some [3, 4, 7])
               DEFAULT_WEIGHT (Some True)) = 1"
proof -
  have w: "weightedSum_spec [3, 4] [3, 4] [3, 4] [3, 4, 7] (11 / 20) (1 / 5) (3 / 20) (1 / 10) = [3, 4]"
    by (simp add: weightedSum_spec_def)
  have n: "l2norm [3, 4] = 5"
    by (simp add: l2norm_def sqrt_25)
  have nz: "normalizeVec [3, 4] = [3 / 5, 4 / 5]"
    by (simp add: normalizeVec_def n)
  have k: "11 / 20 = spreadKey (w_code DEFAULT_WEIGHT) (w_code DEFAULT_WEIGHT)"
    "1 / 5 = spreadKey (w_style DEFAULT_WEIGHT) (w_style DEFAULT_WEIGHT)"
    "3 / 20 = spreadKey (w_structure DEFAULT_WEIGHT) (w_structure DEFAULT_WEIGHT)"
    "1 / 10 = spreadKey (w_holistic DEFAULT_WEIGHT) (w_holistic DEFAULT_WEIGHT)"
    by (simp_all add: DEFAULT_WEIGHT_def spreadKey_def)
  have pos: "(0::real) < 11 / 20" "(0::real) < (if Some True = Some False then 0 else 1 / 5)"
    "(0::real) < 3 / 20" "(0::real) < 1 / 10"
    by simp_all
  have ne: "[3, 4] \<noteq> ([]::real list)" "[3, 4, 7] \<noteq> ([]::real list)"
    by simp_all
  note t = combineVectors_unit_norm [OF ne(1) ne(1) ne(1) ne(2) k pos]
  have a: "combineVectors (Some [3, 4]) (Some [3, 4]) (Some [3, 4]) (Some [3, 4, 7])
             DEFAULT_WEIGHT (Some True) = [3 / 5, 4 / 5]"
    using t [THEN conjunct1] unfolding w nz .
  have d: "l2norm (combineVectors (Some [3, 4]) (Some [3, 4]) (Some [3, 4]) (Some [3, 4, 7])
             DEFAULT_WEIGHT (Some True)) = 1"
    using t [THEN conjunct2, THEN conjunct2, THEN conjunct2] unfolding w by simp
  show ?thesis
    using a d by (rule conjI)
qed


section \<open>SHA-1 digests of three messages\<close>

text \<open>
  The digest is computed step by step: the rotations as shifts, the padded block, its
  sixteen words, the eighty words of the message schedule, the eighty rounds in four
  runs of twenty, the five words of the result in hexadecimal.
\<close>

lemma rotl_32:
  assumes "0 < n" and "n < 32"
  shows "word_rotl n (w :: 32 word) = push_bit n w OR drop_bit (32 - n) w"
proof (rule bit_word_eqI)
  fix k
  assume k: "k < LENGTH(32)"
  show "bit (word_rotl n w) k = bit (push_bit n w OR drop_bit (32 - n) w) k"
  proof (cases "n \<le> k")
    case True
    with k assms have a: "(k + (32 - n)) mod 32 = k - n"
      by (simp add: mod_if)
    from True k have b: "\<not> bit w (32 - n + k)"
      by (auto dest: bit_imp_le_length)
    from k True a b assms show ?thesis
      by (simp add: bit_word_rotl_iff bit_or_iff bit_push_bit_iff bit_drop_bit_eq)
  next
    case False
    with k assms have "k + (32 - n) < 32"
      by simp
    then have a: "(k + (32 - n)) mod 32 = 32 - n + k"
      by (simp add: add.commute)
    from k False a assms show ?thesis
      by (simp add: bit_word_rotl_iff bit_or_iff bit_push_bit_iff bit_drop_bit_eq)
  qed
qed

lemmas rot = rotl_32 [of 1, simplified] rotl_32 [of 5, simplified] rotl_32 [of 30, simplified]

lemma replicate_numeral: "replicate (numeral k) x = x # replicate (pred_numeral k) x"
  by (simp add: numeral_eq_Suc)

lemma sha1_extend_numeral:
  "sha1_extend (numeral k) w =
     sha1_extend (pred_numeral k)
       (w @ [word_rotl 1 (w ! (length w - 3) XOR w ! (length w - 8) XOR w ! (length w - 14)
                            XOR w ! (length w - 16))])"
  by (simp add: numeral_eq_Suc Let_def)

lemma sha1_extend_1:
  "sha1_extend 1 w =
     w @ [word_rotl 1 (w ! (length w - 3) XOR w ! (length w - 8) XOR w ! (length w - 14)
                            XOR w ! (length w - 16))]"
  by (simp add: Let_def)

text \<open>The message \<open>abc\<close>, a test vector of FIPS 180.\<close>

lemma sha1_pad_abc:
  "sha1_pad [97, 98, 99] =
     [97, 98, 99, 128, 0, 0, 0, 0, 0, 0, 0, 0, 0, 0, 0, 0,
      0, 0, 0, 0, 0, 0, 0, 0, 0, 0, 0, 0, 0, 0, 0, 0,
      0, 0, 0, 0, 0, 0, 0, 0, 0, 0, 0, 0, 0, 0, 0, 0,
      0, 0, 0, 0, 0, 0, 0, 0, 0, 0, 0, 0, 0, 0, 0, 24]"
  by (simp add: sha1_pad_def Let_def upt_rec replicate_numeral drop_bit_eq_div take_bit_eq_mod)

lemma sha1_words_abc:
  "map be32 (chunks 4
     [97, 98, 99, 128, 0, 0, 0, 0, 0, 0, 0, 0, 0, 0, 0, 0,
      0, 0, 0, 0, 0, 0, 0, 0, 0, 0, 0, 0, 0, 0, 0, 0,
      0, 0, 0, 0, 0, 0, 0, 0, 0, 0, 0, 0, 0, 0, 0, 0,
      0, 0, 0, 0, 0, 0, 0, 0, 0, 0, 0, 0, 0, 0, 0, 24]) =
     [0x61626380, 0x00000000, 0x00000000, 0x00000000, 0x00000000, 0x00000000,
      0x00000000, 0x00000000, 0x00000000, 0x00000000, 0x00000000, 0x00000000,
      0x00000000, 0x00000000, 0x00000000, 0x00000018]"
  by (simp add: chunks_def be32_def)

lemma sha1_extend_abc:
  "sha1_extend 64
     [0x61626380, 0x00000000, 0x00000000, 0x00000000, 0x00000000, 0x00000000,
      0x00000000, 0x00000000, 0x00000000, 0x00000000, 0x00000000, 0x00000000,
      0x00000000, 0x00000000, 0x00000000, 0x00000018] =
     [0x61626380, 0x00000000, 0x00000000, 0x00000000, 0x00000000, 0x00000000,
      0x00000000, 0x00000000, 0x00000000, 0x00000000, 0x00000000, 0x00000000,
      0x00000000, 0x00000000, 0x00000000, 0x00000018, 0xC2C4C700, 0x00000000,
      0x00000030, 0x85898E01, 0x00000000, 0x00000060, 0x0B131C03, 0x00000030,
      0x85898EC1, 0x16263806, 0x00000000, 0x00000180, 0x2C4C700C, 0x000000F0,
      0x93AFB507, 0x5898E048, 0x8E9A9202, 0x00000600, 0xB131C0F0, 0x16263BC6,
      0x4EBED41E, 0x626380A1, 0x16263806, 0x000018C0, 0xD2E138C4, 0x00000F00,
      0x3AFB5079, 0x898E04E5, 0xE2BA3C2B, 0x000060C0, 0x053A37CD, 0x74458547,
      0xDA9415ED, 0x26380A16, 0x626383A1, 0x4EBF54DE, 0x3835B44B, 0x0000F600,
      0x1E84C7A3, 0x98E04D98, 0x651D16A0, 0x62658CA1, 0x458544D6, 0x44584CB7,
      0x7BA06619, 0x6380AEA2, 0x0AE55269, 0x627B49A1, 0x7CD45C9D, 0x000F0000,
      0xFB50753A, 0xEC6765E8, 0xBA3C2BE2, 0x0060C000, 0x3A37CD05, 0x458546F4,
      0xB8599DD6, 0x380A1A26, 0x01E02203, 0xE7CC3456, 0xE6E60B69, 0x00F60A00,
      0x5795EF4F, 0x822E0879]"
  by (simp add: sha1_extend_numeral sha1_extend_1 Let_def rot)

lemma sha1_rounds_abc_0:
  "foldl sha1_round
     (0x67452301, 0xEFCDAB89, 0x98BADCFE, 0x10325476, 0xC3D2E1F0)
     (zip [0..<20]
     [0x61626380, 0x00000000, 0x00000000, 0x00000000, 0x00000000, 0x00000000,
      0x00000000, 0x00000000, 0x00000000, 0x00000000, 0x00000000, 0x00000000,
      0x00000000, 0x00000000, 0x00000000, 0x00000018, 0xC2C4C700, 0x00000000,
      0x00000030, 0x85898E01]) =
     (0xFD9E1D7D, 0xDC64901D, 0x20AA99CA, 0xD3A49608, 0xC82F758B)"
  by (simp add: upt_rec sha1_f_def sha1_k_def rot)

lemma sha1_rounds_abc_1:
  "foldl sha1_round
     (0xFD9E1D7D, 0xDC64901D, 0x20AA99CA, 0xD3A49608, 0xC82F758B)
     (zip [20..<40]
     [0x00000000, 0x00000060, 0x0B131C03, 0x00000030, 0x85898EC1, 0x16263806,
      0x00000000, 0x00000180, 0x2C4C700C, 0x000000F0, 0x93AFB507, 0x5898E048,
      0x8E9A9202, 0x00000600, 0xB131C0F0, 0x16263BC6, 0x4EBED41E, 0x626380A1,
      0x16263806, 0x000018C0]) =
     (0x32DE1CBA, 0x4C986405, 0xF718E5CF, 0x03D447F6, 0xF72EEC32)"
  by (simp add: upt_rec sha1_f_def sha1_k_def rot)

lemma sha1_rounds_abc_2:
  "foldl sha1_round
     (0x32DE1CBA, 0x4C986405, 0xF718E5CF, 0x03D447F6, 0xF72EEC32)
     (zip [40..<60]
     [0xD2E138C4, 0x00000F00, 0x3AFB5079, 0x898E04E5, 0xE2BA3C2B, 0x000060C0,
      0x053A37CD, 0x74458547, 0xDA9415ED, 0x26380A16, 0x626383A1, 0x4EBF54DE,
      0x3835B44B, 0x0000F600, 0x1E84C7A3, 0x98E04D98, 0x651D16A0, 0x62658CA1,
      0x458544D6, 0x44584CB7]) =
     (0x3F52DE5A, 0x09D785FD, 0x3498BFD4, 0xF211824F, 0xD79915AB)"
  by (simp add: upt_rec sha1_f_def sha1_k_def rot)

lemma sha1_rounds_abc_3:
  "foldl sha1_round
     (0x3F52DE5A, 0x09D785FD, 0x3498BFD4, 0xF211824F, 0xD79915AB)
     (zip [60..<80]
     [0x7BA06619, 0x6380AEA2, 0x0AE55269, 0x627B49A1, 0x7CD45C9D, 0x000F0000,
      0xFB50753A, 0xEC6765E8, 0xBA3C2BE2, 0x0060C000, 0x3A37CD05, 0x458546F4,
      0xB8599DD6, 0x380A1A26, 0x01E02203, 0xE7CC3456, 0xE6E60B69, 0x00F60A00,
      0x5795EF4F, 0x822E0879]) =
     (0x42541B35, 0x5738D5E1, 0x21834873, 0x681E6DF6, 0xD8FDF6AD)"
  by (simp add: upt_rec sha1_f_def sha1_k_def rot)

lemma sha1_rounds_abc:
  "foldl sha1_round
     (0x67452301, 0xEFCDAB89, 0x98BADCFE, 0x10325476, 0xC3D2E1F0)
     (zip [0..<80]
     [0x61626380, 0x00000000, 0x00000000, 0x00000000, 0x00000000, 0x00000000,
      0x00000000, 0x00000000, 0x00000000, 0x00000000, 0x00000000, 0x00000000,
      0x00000000, 0x00000000, 0x00000000, 0x00000018, 0xC2C4C700, 0x00000000,
      0x00000030, 0x85898E01, 0x00000000, 0x00000060, 0x0B131C03, 0x00000030,
      0x85898EC1, 0x16263806, 0x00000000, 0x00000180, 0x2C4C700C, 0x000000F0,
      0x93AFB507, 0x5898E048, 0x8E9A9202, 0x00000600, 0xB131C0F0, 0x16263BC6,
      0x4EBED41E, 0x626380A1, 0x16263806, 0x000018C0, 0xD2E138C4, 0x00000F00,
      0x3AFB5079, 0x898E04E5, 0xE2BA3C2B, 0x000060C0, 0x053A37CD, 0x74458547,
      0xDA9415ED, 0x26380A16, 0x626383A1, 0x4EBF54DE, 0x3835B44B, 0x0000F600,
      0x1E84C7A3, 0x98E04D98, 0x651D16A0, 0x62658CA1, 0x458544D6, 0x44584CB7,
      0x7BA06619, 0x6380AEA2, 0x0AE55269, 0x627B49A1, 0x7CD45C9D, 0x000F0000,
      0xFB50753A, 0xEC6765E8, 0xBA3C2BE2, 0x0060C000, 0x3A37CD05, 0x458546F4,
      0xB8599DD6, 0x380A1A26, 0x01E02203, 0xE7CC3456, 0xE6E60B69, 0x00F60A00,
      0x5795EF4F, 0x822E0879]) =
     (0x42541B35, 0x5738D5E1, 0x21834873, 0x681E6DF6, 0xD8FDF6AD)"
proof -
  have "zip [0..<80]
     ([0x61626380, 0x00000000, 0x00000000, 0x00000000, 0x00000000, 0x00000000,
      0x00000000, 0x00000000, 0x00000000, 0x00000000, 0x00000000, 0x00000000,
      0x00000000, 0x00000000, 0x00000000, 0x00000018, 0xC2C4C700, 0x00000000,
      0x00000030, 0x85898E01, 0x00000000, 0x00000060, 0x0B131C03, 0x00000030,
      0x85898EC1, 0x16263806, 0x00000000, 0x00000180, 0x2C4C700C, 0x000000F0,
      0x93AFB507, 0x5898E048, 0x8E9A9202, 0x00000600, 0xB131C0F0, 0x16263BC6,
      0x4EBED41E, 0x626380A1, 0x16263806, 0x000018C0, 0xD2E138C4, 0x00000F00,
      0x3AFB5079, 0x898E04E5, 0xE2BA3C2B, 0x000060C0, 0x053A37CD, 0x74458547,
      0xDA9415ED, 0x26380A16, 0x626383A1, 0x4EBF54DE, 0x3835B44B, 0x0000F600,
      0x1E84C7A3, 0x98E04D98, 0x651D16A0, 0x62658CA1, 0x458544D6, 0x44584CB7,
      0x7BA06619, 0x6380AEA2, 0x0AE55269, 0x627B49A1, 0x7CD45C9D, 0x000F0000,
      0xFB50753A, 0xEC6765E8, 0xBA3C2BE2, 0x0060C000, 0x3A37CD05, 0x458546F4,
      0xB8599DD6, 0x380A1A26, 0x01E02203, 0xE7CC3456, 0xE6E60B69, 0x00F60A00,
      0x5795EF4F, 0x822E0879] :: w32 list) =
     zip [0..<20]
     [0x61626380, 0x00000000, 0x00000000, 0x00000000, 0x00000000, 0x00000000,
      0x00000000, 0x00000000, 0x00000000, 0x00000000, 0x00000000, 0x00000000,
      0x00000000, 0x00000000, 0x00000000, 0x00000018, 0xC2C4C700, 0x00000000,
      0x00000030, 0x85898E01] @
     zip [20..<40]
     [0x00000000, 0x00000060, 0x0B131C03, 0x00000030, 0x85898EC1, 0x16263806,
      0x00000000, 0x00000180, 0x2C4C700C, 0x000000F0, 0x93AFB507, 0x5898E048,
      0x8E9A9202, 0x00000600, 0xB131C0F0, 0x16263BC6, 0x4EBED41E, 0x626380A1,
      0x16263806, 0x000018C0] @
     zip [40..<60]
     [0xD2E138C4, 0x00000F00, 0x3AFB5079, 0x898E04E5, 0xE2BA3C2B, 0x000060C0,
      0x053A37CD, 0x74458547, 0xDA9415ED, 0x26380A16, 0x626383A1, 0x4EBF54DE,
      0x3835B44B, 0x0000F600, 0x1E84C7A3, 0x98E04D98, 0x651D16A0, 0x62658CA1,
      0x458544D6, 0x44584CB7] @
     zip [60..<80]
     [0x7BA06619, 0x6380AEA2, 0x0AE55269, 0x627B49A1, 0x7CD45C9D, 0x000F0000,
      0xFB50753A, 0xEC6765E8, 0xBA3C2BE2, 0x0060C000, 0x3A37CD05, 0x458546F4,
      0xB8599DD6, 0x380A1A26, 0x01E02203, 0xE7CC3456, 0xE6E60B69, 0x00F60A00,
      0x5795EF4F, 0x822E0879]"
    by (simp add: upt_rec)
  then show ?thesis
    by (simp only: foldl_append sha1_rounds_abc_0 sha1_rounds_abc_1
        sha1_rounds_abc_2 sha1_rounds_abc_3)
qed

lemma sha1_block_abc:
  "sha1_block sha1_init
     [97, 98, 99, 128, 0, 0, 0, 0, 0, 0, 0, 0, 0, 0, 0, 0,
      0, 0, 0, 0, 0, 0, 0, 0, 0, 0, 0, 0, 0, 0, 0, 0,
      0, 0, 0, 0, 0, 0, 0, 0, 0, 0, 0, 0, 0, 0, 0, 0,
      0, 0, 0, 0, 0, 0, 0, 0, 0, 0, 0, 0, 0, 0, 0, 24] =
     (0xA9993E36, 0x4706816A, 0xBA3E2571, 0x7850C26C, 0x9CD0D89D)"
  by (simp add: sha1_block_def sha1_words_abc sha1_extend_abc sha1_rounds_abc sha1_init_def
      del: foldl_Cons)

lemma hex32_abc_0: "hex32 0xA9993E36 = ''a9993e36''"
  by (simp add: hex32_def hexdigit_def upt_rec drop_bit_eq_div unat_div)

lemma hex32_abc_1: "hex32 0x4706816A = ''4706816a''"
  by (simp add: hex32_def hexdigit_def upt_rec drop_bit_eq_div unat_div)

lemma hex32_abc_2: "hex32 0xBA3E2571 = ''ba3e2571''"
  by (simp add: hex32_def hexdigit_def upt_rec drop_bit_eq_div unat_div)

lemma hex32_abc_3: "hex32 0x7850C26C = ''7850c26c''"
  by (simp add: hex32_def hexdigit_def upt_rec drop_bit_eq_div unat_div)

lemma hex32_abc_4: "hex32 0x9CD0D89D = ''9cd0d89d''"
  by (simp add: hex32_def hexdigit_def upt_rec drop_bit_eq_div unat_div)

lemma sha1_hex_abc:
  "sha1_hex ''abc'' = ''a9993e364706816aba3e25717850c26c9cd0d89d''"
  by (simp add: sha1_hex_def sha1_pad_abc chunks_def sha1_block_abc
      hex32_abc_0 hex32_abc_1 hex32_abc_2 hex32_abc_3 hex32_abc_4)
































section \<open>Properties of the embedding orchestrator\<close>

















section \<open>Properties of the pairwise similarity engine\<close>


lemma indexPairs_complete: "i < j \<Longrightarrow> j < n \<Longrightarrow> (i, j) \<in> set (indexPairs n)"
  by (auto simp: indexPairs_def intro!: bexI [of _ i])

lemma st_pairs_suppress [simp]: "st_pairs (suppress r st) = st_pairs st"
  by (simp add: suppress_def)

lemma st_pairs_recordSimilarity [simp]: "st_pairs (recordSimilarity ei ej s st) = st_pairs st"
  by (simp add: recordSimilarity_def)










lemma l2norm_unit: "l2norm [1, 0] = 1"
  by (simp add: l2norm_def)

lemma l2norm_exNear: "l2norm exNear = 1"
proof -
  have "(9999 / 10001) * (9999 / 10001) + (200 / 10001) * (200 / 10001) = (1::real)"
    by simp
  then show ?thesis
    by (simp add: l2norm_def exNear_def)
qed

lemma cosine_exNear: "cosine_spec [1, 0] exNear = 9999 / 10001"
  using l2norm_unit l2norm_exNear
  by (simp add: cosine_spec_def) (simp add: exNear_def)

lemma toFixed4_exNear: "toFixed4 (9999 / 10001) = 4999 / 5000"
proof -
  have "round ((9999 / 10001 :: real) * 10000) = 9998"
    by (simp add: round_def floor_eq_iff) 
  then show ?thesis
    by (simp add: toFixed4_def)
qed

lemma countNonEmptyLines_x: "countNonEmptyLines (Some ''x'') = 1"
  by (simp add: countNonEmptyLines_def newline_def trim_def isSpace_def)

lemma suppressPair_ex: "suppressPair (exEntry ''A'' ''A'' pa va) (exEntry ''B'' ''B'' pb vb) = None"
  by (simp add: suppressPair_def exEntry_def exComponent_def compositionSuppression_def
      wrapperSuppression_def lowSignalSuppression_def isWrapperLike_def hasProps_def
      propNamesLength_def countNonEmptyLines_x Let_def)

lemma indexPairs_2: "indexPairs (Suc (Suc 0)) = [(0, Suc 0)]"
  by (simp add: indexPairs_def upt_rec [of 0] upt_rec [of "Suc 0"] upt_rec [of "Suc (Suc 0)"])

lemma labelPair_exNear_at:
  "labelPair cosine_spec exGetI18n (exEntry ''A'' ''A'' ''a/A.jsx'' [1, 0])
       (exEntry ''B'' ''B'' ''b/B.jsx'' exNear) (9999 / 10001)
       (exConfig\<lparr> similarityThreshold := t \<rparr>)
     = Inr ([''copy-paste-variant''], [''remove the copy''])"
  by (simp add: labelPair_def buildContext_def bindE_def exEntry_def exComponent_def
      exConfig_def exGetI18n_def exI18n_def overlap_def
      textOverlap_def tokenize_x lineCount_x jsSet_def
      runCheck_def wrapperCheck_def styleCheck_def logicCheck_def copyCheck_def propCheck_def
      forkCheck_def isDisabled_def propNamesLength_def listLength_def cosine_spec_unit)

lemma processPair_exNear_at:
  assumes "t \<le> 9999 / 10001"
  shows "processPair cosine_spec exGetI18n (exConfig\<lparr> similarityThreshold := t \<rparr>)
       (exEntry ''A'' ''A'' ''a/A.jsx'' [1, 0])
       (exEntry ''B'' ''B'' ''b/B.jsx'' exNear) initState
     = Inr \<lparr> st_pairs = [exNearPair],
             st_bestByComponent = [(''A'', 9999 / 10001), (''B'', 9999 / 10001)],
             st_evaluatedPairs = 1, st_similaritySum = 9999 / 10001,
             st_maxSimilarity = 9999 / 10001, st_suppressedPairs = 0,
             st_suppressionReasons = [] \<rparr>"
proof -
  let ?cfg = "exConfig\<lparr> similarityThreshold := t \<rparr>"
  have v: "vector (exEntry ''A'' ''A'' ''a/A.jsx'' [1, 0]) = [1, 0]"
    "vector (exEntry ''B'' ''B'' ''b/B.jsx'' exNear) = exNear"
    by (simp_all add: exEntry_def)
  have c: "\<not> compareFiltered ?cfg (exEntry ''A'' ''A'' ''a/A.jsx'' [1, 0])
       (exEntry ''B'' ''B'' ''b/B.jsx'' exNear)"
    by (simp add: compareFiltered_def compareEnabled_def exConfig_def)
  have sk: "\<not> shouldSkipByPath (filePath (component (exEntry ''A'' ''A'' ''a/A.jsx'' [1, 0])))
       (filePath (component (exEntry ''B'' ''B'' ''b/B.jsx'' exNear))) ?cfg"
    by (simp add: shouldSkipByPath_def exConfig_def)
  have cfg: "similarityThreshold ?cfg = t"
    "maxSimilarityThreshold ?cfg = Some 1"
    "highSimilarityThreshold ?cfg = 0.9"
    by (simp_all add: exConfig_def)
  have ids: "comp_id (component (exEntry ''A'' ''A'' ''a/A.jsx'' [1, 0])) = ''A''"
    "comp_id (component (exEntry ''B'' ''B'' ''b/B.jsx'' exNear)) = ''B''"
    by (simp_all add: exEntry_def exComponent_def)
  show ?thesis
    using assms unfolding processPair_def Let_def v cosine_exNear
    by (simp add: c sk cfg ids suppressPair_ex labelPair_exNear_at bindE_def toFixed4_exNear
        recordSimilarity_def trackBestSimilarity_def bestOr0_def initState_def epsilon_def
        exNearPair_def)
qed

lemma similarityLoop_exNear_at:
  assumes "t \<le> 9999 / 10001"
  shows "similarityLoop cosine_spec exGetI18n
       [exEntry ''A'' ''A'' ''a/A.jsx'' [1, 0], exEntry ''B'' ''B'' ''b/B.jsx'' exNear]
       (exConfig\<lparr> similarityThreshold := t \<rparr>)
     = Inr \<lparr> st_pairs = [exNearPair],
             st_bestByComponent = [(''A'', 9999 / 10001), (''B'', 9999 / 10001)],
             st_evaluatedPairs = 1, st_similaritySum = 9999 / 10001,
             st_maxSimilarity = 9999 / 10001, st_suppressedPairs = 0,
             st_suppressionReasons = [] \<rparr>"
  by (simp add: similarityLoop_def indexPairs_2 loopBody_def processPair_exNear_at [OF assms])








lemma map_of_mapSet: "map_of (mapSet k v al) = (map_of al)(k \<mapsto> v)"
  by (induction al) (auto simp: fun_eq_iff)

lemma bestOr0_track:
  "bestOr0 (trackBestSimilarity best k s) k' =
     (if k' = k then max (bestOr0 best k) s else bestOr0 best k')"
  by (auto simp: trackBestSimilarity_def bestOr0_def Let_def map_of_mapSet split: option.splits)

lemma allPositive_track:
  assumes "allPositive best"
  shows "allPositive (trackBestSimilarity best k s)"
proof (cases "s > bestOr0 best k")
  case False
  with assms show ?thesis
    by (simp add: trackBestSimilarity_def Let_def)
next
  case True
  from assms have "0 \<le> bestOr0 best k"
    by (auto simp: allPositive_def bestOr0_def split: option.splits intro: less_imp_le)
  with True have "0 < s" by simp
  with assms True show ?thesis
    by (auto simp: allPositive_def trackBestSimilarity_def Let_def map_of_mapSet)
qed

lemma allPositive_lookup:
  "allPositive best \<Longrightarrow>
     map_of best k = (if 0 < bestOr0 best k then Some (bestOr0 best k) else None)"
  by (auto simp: allPositive_def bestOr0_def split: option.splits)

text \<open>One step of the loop, as far as the aggregates go.\<close>

lemma processPair_aggregates:
  assumes "processPair cosine getI18n cfg ei ej st = Inr st'"
  shows "if compareFiltered cfg ei ej
         then st_evaluatedPairs st' = st_evaluatedPairs st
            \<and> st_similaritySum st' = st_similaritySum st
            \<and> st_maxSimilarity st' = st_maxSimilarity st
            \<and> st_bestByComponent st' = st_bestByComponent st
         else st_evaluatedPairs st' = st_evaluatedPairs st + 1
            \<and> st_similaritySum st' = st_similaritySum st + cosine (vector ei) (vector ej)
            \<and> st_maxSimilarity st' = max (st_maxSimilarity st) (cosine (vector ei) (vector ej))
            \<and> st_bestByComponent st' =
                trackBestSimilarity
                  (trackBestSimilarity (st_bestByComponent st) (comp_id (component ei))
                     (cosine (vector ei) (vector ej)))
                  (comp_id (component ej)) (cosine (vector ei) (vector ej))"
  using assms
  by (auto simp: processPair_def Let_def bindE_def suppress_def recordSimilarity_def max_def
      split: if_splits option.splits sum.splits)

lemma foldE_aggregates:
  assumes "foldE (loopBody cosine getI18n entries cfg) idxs st = Inr st'"
  shows "st_evaluatedPairs st' = st_evaluatedPairs st + length (evaluatedOf cfg entries idxs)
     \<and> st_similaritySum st' = st_similaritySum st
          + sum_list (map (pairSimilarity cosine entries) (evaluatedOf cfg entries idxs))
     \<and> st_maxSimilarity st' = foldl max (st_maxSimilarity st)
          (map (pairSimilarity cosine entries) (evaluatedOf cfg entries idxs))
     \<and> (\<forall>k. bestOr0 (st_bestByComponent st') k
            = foldl max (bestOr0 (st_bestByComponent st) k)
                (map (pairSimilarity cosine entries)
                   (touching entries k (evaluatedOf cfg entries idxs))))
     \<and> (allPositive (st_bestByComponent st) \<longrightarrow> allPositive (st_bestByComponent st'))"
  using assms
proof (induction idxs arbitrary: st)
  case Nil
  then show ?case
    by (simp add: evaluatedOf_def touching_def)
next
  case (Cons ij idxs)
  from Cons.prems obtain st1 where
    step0: "loopBody cosine getI18n entries cfg st ij = Inr st1"
    and rest: "foldE (loopBody cosine getI18n entries cfg) idxs st1 = Inr st'"
    by (auto split: sum.splits)
  from step0 have
    step: "processPair cosine getI18n cfg (entries ! fst ij) (entries ! snd ij) st = Inr st1"
    by (simp add: loopBody_def)
  note ih = Cons.IH [OF rest]
  note ag = processPair_aggregates [OF step]
  show ?case
  proof (cases "compareFiltered cfg (entries ! fst ij) (entries ! snd ij)")
    case True
    with ag have same: "st_evaluatedPairs st1 = st_evaluatedPairs st"
      "st_similaritySum st1 = st_similaritySum st" "st_maxSimilarity st1 = st_maxSimilarity st"
      "st_bestByComponent st1 = st_bestByComponent st"
      by simp_all
    from True have ev: "evaluatedOf cfg entries (ij # idxs) = evaluatedOf cfg entries idxs"
      by (simp add: evaluatedOf_def)
    from ih show ?thesis
      unfolding ev same by simp
  next
    case False
    let ?s = "cosine (vector (entries ! fst ij)) (vector (entries ! snd ij))"
    let ?a = "comp_id (component (entries ! fst ij))"
    let ?b = "comp_id (component (entries ! snd ij))"
    from False ag have upd: "st_evaluatedPairs st1 = st_evaluatedPairs st + 1"
      "st_similaritySum st1 = st_similaritySum st + ?s"
      "st_maxSimilarity st1 = max (st_maxSimilarity st) ?s"
      "st_bestByComponent st1 =
         trackBestSimilarity (trackBestSimilarity (st_bestByComponent st) ?a ?s) ?b ?s"
      by simp_all
    from False have ev: "evaluatedOf cfg entries (ij # idxs) = ij # evaluatedOf cfg entries idxs"
      by (simp add: evaluatedOf_def)
    have best: "\<And>k. bestOr0 (st_bestByComponent st1) k
        = (if ?a = k \<or> ?b = k then max (bestOr0 (st_bestByComponent st) k) ?s
           else bestOr0 (st_bestByComponent st) k)"
      unfolding upd by (auto simp: bestOr0_track)
    have pos: "allPositive (st_bestByComponent st) \<longrightarrow> allPositive (st_bestByComponent st1)"
      unfolding upd by (simp add: allPositive_track)
    have t: "\<And>k. touching entries k (ij # evaluatedOf cfg entries idxs)
        = (if ?a = k \<or> ?b = k then [ij] else []) @ touching entries k (evaluatedOf cfg entries idxs)"
      by (simp add: touching_def)
    from ih pos show ?thesis
      unfolding ev t upd(1-3) best
      by (simp add: pairSimilarity_def)
  qed
qed

lemma indexPairs_unfiltered:
  "\<not> compareEnabled cfg \<Longrightarrow> evaluatedOf cfg entries ijs = ijs"
  by (simp add: evaluatedOf_def compareFiltered_def)

lemma processPair_compare:
  "processPair cosine_spec exGetI18n exCompareConfig (exEntry ''A'' ''A'' ''a/A.jsx'' [1, 0])
       (exEntry ''B'' ''B'' ''b/B.jsx'' [1, 0]) initState
     = Inr \<lparr> st_pairs = [], st_bestByComponent = [], st_evaluatedPairs = 0,
             st_similaritySum = 0, st_maxSimilarity = 0, st_suppressedPairs = 1,
             st_suppressionReasons = [(''compare-filter'', 1)] \<rparr>"
  by (simp add: processPair_def compareFiltered_def compareEnabled_def exCompareConfig_def
      exConfig_def exEntry_def exComponent_def suppress_def initState_def)

lemma toFixed4_0: "toFixed4 0 = 0"
  by (simp add: toFixed4_def)

lemma findSimilarities_compare:
  "findSimilarities cosine_spec exGetI18n
       [exEntry ''A'' ''A'' ''a/A.jsx'' [1, 0], exEntry ''B'' ''B'' ''b/B.jsx'' [1, 0]]
       exCompareConfig
     = Inr \<lparr> pairs = [],
             scorecard = \<lparr> meanSimilarity = 0, maxSimilarity = 0, evaluatedPairs = 0,
                           coveredComponents = 0, suppressedPairs = 1,
                           suppressionReasons = [(''compare-filter'', 1)],
                           minBestSimilarity = 0, maxBestSimilarity = 0 \<rparr> \<rparr>"
proof -
  have l: "limit exCompareConfig = None"
    by (simp add: exCompareConfig_def exConfig_def)
  have loop: "similarityLoop cosine_spec exGetI18n
       [exEntry ''A'' ''A'' ''a/A.jsx'' [1, 0], exEntry ''B'' ''B'' ''b/B.jsx'' [1, 0]]
       exCompareConfig
     = Inr \<lparr> st_pairs = [], st_bestByComponent = [], st_evaluatedPairs = 0,
             st_similaritySum = 0, st_maxSimilarity = 0, st_suppressedPairs = 1,
             st_suppressionReasons = [(''compare-filter'', 1)] \<rparr>"
    by (simp add: similarityLoop_def indexPairs_2 loopBody_def processPair_compare)
  show ?thesis
    unfolding findSimilarities_def findSimilarities_with_def loop
    by (simp add: bindE_def l limitMatches_with_def sortBySimilarityDesc_def
        buildScorecard_def toFixed4_0)
qed

lemma l2norm_exFar: "l2norm exFar = 1"
proof -
  have "(3 / 5) * (3 / 5) + (4 / 5) * (4 / 5) = (1::real)"
    by simp
  then show ?thesis
    by (simp add: l2norm_def exFar_def)
qed

lemma cosine_exFar: "cosine_spec [1, 0] exFar = 3 / 5"
  using l2norm_unit l2norm_exFar
  by (simp add: cosine_spec_def) (simp add: exFar_def)

lemma toFixed4_exFar: "toFixed4 (3 / 5) = 3 / 5"
  by (simp add: toFixed4_def)

lemma processPair_exFar:
  "processPair cosine_spec exGetI18n exConfig (exEntry ''A'' ''A'' ''a/A.jsx'' [1, 0])
       (exEntry ''B'' ''B'' ''b/B.jsx'' exFar) initState
     = Inr \<lparr> st_pairs = [],
             st_bestByComponent = [(''A'', 3 / 5), (''B'', 3 / 5)],
             st_evaluatedPairs = 1, st_similaritySum = 3 / 5,
             st_maxSimilarity = 3 / 5, st_suppressedPairs = 0,
             st_suppressionReasons = [] \<rparr>"
proof -
  have v: "vector (exEntry ''A'' ''A'' ''a/A.jsx'' [1, 0]) = [1, 0]"
    "vector (exEntry ''B'' ''B'' ''b/B.jsx'' exFar) = exFar"
    by (simp_all add: exEntry_def)
  have c: "\<not> compareFiltered exConfig (exEntry ''A'' ''A'' ''a/A.jsx'' [1, 0])
       (exEntry ''B'' ''B'' ''b/B.jsx'' exFar)"
    by (simp add: compareFiltered_def compareEnabled_def exConfig_def)
  have cfg: "similarityThreshold exConfig = 0.85"
    by (simp add: exConfig_def)
  have ids: "comp_id (component (exEntry ''A'' ''A'' ''a/A.jsx'' [1, 0])) = ''A''"
    "comp_id (component (exEntry ''B'' ''B'' ''b/B.jsx'' exFar)) = ''B''"
    by (simp_all add: exEntry_def exComponent_def)
  show ?thesis
    unfolding processPair_def Let_def v cosine_exFar
    by (simp add: c cfg ids recordSimilarity_def trackBestSimilarity_def bestOr0_def
        initState_def)
qed

lemma similarityLoop_exFar:
  "similarityLoop cosine_spec exGetI18n
       [exEntry ''A'' ''A'' ''a/A.jsx'' [1, 0], exEntry ''B'' ''B'' ''b/B.jsx'' exFar] exConfig
     = Inr \<lparr> st_pairs = [],
             st_bestByComponent = [(''A'', 3 / 5), (''B'', 3 / 5)],
             st_evaluatedPairs = 1, st_similaritySum = 3 / 5,
             st_maxSimilarity = 3 / 5, st_suppressedPairs = 0,
             st_suppressionReasons = [] \<rparr>"
  by (simp add: similarityLoop_def indexPairs_2 loopBody_def processPair_exFar)

lemma findSimilarities_exFar:
  "findSimilarities cosine_spec exGetI18n
       [exEntry ''A'' ''A'' ''a/A.jsx'' [1, 0], exEntry ''B'' ''B'' ''b/B.jsx'' exFar] exConfig
     = Inr \<lparr> pairs = [],
             scorecard = \<lparr> meanSimilarity = 3 / 5, maxSimilarity = 3 / 5, evaluatedPairs = 1,
                           coveredComponents = 2, suppressedPairs = 0,
                           suppressionReasons = [],
                           minBestSimilarity = 3 / 5, maxBestSimilarity = 3 / 5 \<rparr> \<rparr>"
proof -
  have l: "limit exConfig = None"
    by (simp add: exConfig_def)
  show ?thesis
    unfolding findSimilarities_def findSimilarities_with_def similarityLoop_exFar
    by (simp add: bindE_def l limitMatches_with_def sortBySimilarityDesc_def
        buildScorecard_def toFixed4_exFar)
qed


text \<open>
  Claim C3, as stated: the similarity of every enumerated pair is recorded into the
  aggregates. It fails in compare mode: a pair of two non-targets is skipped before its
  cosine is computed. Here the only pair has cosine 1, and the scorecard counts no
  evaluated pair and a maximum similarity of 0.
\<close>

theorem compare_filtered_pair_not_recorded:
  "findSimilarities cosine_spec exGetI18n
       [exEntry ''A'' ''A'' ''a/A.jsx'' [1, 0], exEntry ''B'' ''B'' ''b/B.jsx'' [1, 0]]
       exCompareConfig
     = Inr \<lparr> pairs = [],
             scorecard = \<lparr> meanSimilarity = 0, maxSimilarity = 0, evaluatedPairs = 0,
                           coveredComponents = 0, suppressedPairs = 1,
                           suppressionReasons = [(''compare-filter'', 1)],
                           minBestSimilarity = 0, maxBestSimilarity = 0 \<rparr> \<rparr>
   \<and> indexPairs 2 = [(0, 1)]
   \<and> cosine_spec (vector (exEntry ''A'' ''A'' ''a/A.jsx'' [1, 0]))
         (vector (exEntry ''B'' ''B'' ''b/B.jsx'' [1, 0])) = 1"
  using findSimilarities_compare indexPairs_2 cosine_spec_unit
  by (simp add: exEntry_def numeral_2_eq_2)

text \<open>
  Claim C3, amended. For every pair of entries at indices \<open>i < j\<close> that passes the
  compare-mode filter (every pair when compare mode is off), the cosine of the two
  combined vectors is recorded whether or not the pair is reported: the count of
  evaluated pairs and the similarity sum run over exactly these pairs, the running
  maximum is the largest of 0 and their similarities, and the best similarity kept for
  a unit is the largest positive similarity of an evaluated pair that touches it (a
  unit with none has no entry). The scorecard's \<open>evaluatedPairs\<close>, \<open>meanSimilarity\<close> and
  \<open>maxSimilarity\<close> are these values, the last two rounded to four decimals. This holds
  whenever the run completes.
\<close>

theorem aggregates_cover_evaluated_pairs:
  assumes "findSimilarities cosine getI18n entries cfg = Inr r"
  shows "\<exists>st. similarityLoop cosine getI18n entries cfg = Inr st
     \<and> st_evaluatedPairs st = length (evaluatedOf cfg entries (indexPairs (length entries)))
     \<and> st_similaritySum st
         = sum_list (map (pairSimilarity cosine entries)
                      (evaluatedOf cfg entries (indexPairs (length entries))))
     \<and> st_maxSimilarity st
         = foldl max 0 (map (pairSimilarity cosine entries)
                         (evaluatedOf cfg entries (indexPairs (length entries))))
     \<and> (\<forall>k. map_of (st_bestByComponent st) k
           = (if 0 < foldl max 0 (map (pairSimilarity cosine entries)
                       (touching entries k (evaluatedOf cfg entries (indexPairs (length entries)))))
              then Some (foldl max 0 (map (pairSimilarity cosine entries)
                       (touching entries k (evaluatedOf cfg entries (indexPairs (length entries))))))
              else None))
     \<and> evaluatedPairs (scorecard r)
         = length (evaluatedOf cfg entries (indexPairs (length entries)))
     \<and> meanSimilarity (scorecard r)
         = (if length (evaluatedOf cfg entries (indexPairs (length entries))) = 0 then 0
            else toFixed4 (sum_list (map (pairSimilarity cosine entries)
                                       (evaluatedOf cfg entries (indexPairs (length entries))))
                           / real (length (evaluatedOf cfg entries (indexPairs (length entries))))))
     \<and> maxSimilarity (scorecard r)
         = toFixed4 (foldl max 0 (map (pairSimilarity cosine entries)
                                    (evaluatedOf cfg entries (indexPairs (length entries)))))
     \<and> (\<not> compareEnabled cfg \<longrightarrow>
          evaluatedOf cfg entries (indexPairs (length entries)) = indexPairs (length entries))"
proof -
  let ?ev = "evaluatedOf cfg entries (indexPairs (length entries))"
  from assms obtain st where
    loop: "similarityLoop cosine getI18n entries cfg = Inr st"
    and sc: "scorecard r = buildScorecard (st_bestByComponent st) (st_evaluatedPairs st)
                     (st_similaritySum st) (st_maxSimilarity st) (st_suppressedPairs st)
                     (st_suppressionReasons st)"
    by (auto simp: findSimilarities_def findSimilarities_with_def bindE_def Let_def
        split: sum.splits)
  from loop have
    f: "foldE (loopBody cosine getI18n entries cfg) (indexPairs (length entries)) initState = Inr st"
    by (simp add: similarityLoop_def)
  note ag = foldE_aggregates [OF f]
  have init: "st_evaluatedPairs initState = 0" "st_similaritySum initState = 0"
    "st_maxSimilarity initState = 0" "st_bestByComponent initState = []"
    by (simp_all add: initState_def)
  have p0: "allPositive []"
    by (simp add: allPositive_def)
  from ag have n: "st_evaluatedPairs st = length ?ev"
    and sm: "st_similaritySum st = sum_list (map (pairSimilarity cosine entries) ?ev)"
    and mx: "st_maxSimilarity st = foldl max 0 (map (pairSimilarity cosine entries) ?ev)"
    and b0: "\<forall>k. bestOr0 (st_bestByComponent st) k
        = foldl max 0 (map (pairSimilarity cosine entries) (touching entries k ?ev))"
    and pos: "allPositive (st_bestByComponent st)"
    unfolding init using p0 by (simp_all add: bestOr0_def)
  have best: "\<forall>k. map_of (st_bestByComponent st) k
           = (if 0 < foldl max 0 (map (pairSimilarity cosine entries) (touching entries k ?ev))
              then Some (foldl max 0 (map (pairSimilarity cosine entries) (touching entries k ?ev)))
              else None)"
    using allPositive_lookup [OF pos] b0 by simp
  have card: "evaluatedPairs (scorecard r) = length ?ev"
    "meanSimilarity (scorecard r)
         = (if length ?ev = 0 then 0
            else toFixed4 (sum_list (map (pairSimilarity cosine entries) ?ev) / real (length ?ev)))"
    "maxSimilarity (scorecard r) = toFixed4 (foldl max 0 (map (pairSimilarity cosine entries) ?ev))"
    unfolding sc by (simp_all add: buildScorecard_def Let_def n sm mx)
  have un: "\<not> compareEnabled cfg \<longrightarrow> ?ev = indexPairs (length entries)"
    by (simp add: indexPairs_unfiltered)
  from loop n sm mx best card un show ?thesis
    by blast
qed


lemma evaluatedOf_exFar:
  "evaluatedOf exConfig
     [exEntry ''A'' ''A'' ''a/A.jsx'' [1, 0], exEntry ''B'' ''B'' ''b/B.jsx'' exFar]
     (indexPairs (length
        [exEntry ''A'' ''A'' ''a/A.jsx'' [1, 0], exEntry ''B'' ''B'' ''b/B.jsx'' exFar]))
   = [(0, Suc 0)]"
  by (simp add: evaluatedOf_def indexPairs_2 compareFiltered_def compareEnabled_def exConfig_def)

theorem aggregates_cover_evaluated_pairs_witness:
  "findSimilarities cosine_spec exGetI18n
       [exEntry ''A'' ''A'' ''a/A.jsx'' [1, 0], exEntry ''B'' ''B'' ''b/B.jsx'' exFar] exConfig
     = Inr \<lparr> pairs = [],
             scorecard = \<lparr> meanSimilarity = 3 / 5, maxSimilarity = 3 / 5, evaluatedPairs = 1,
                           coveredComponents = 2, suppressedPairs = 0,
                           suppressionReasons = [],
                           minBestSimilarity = 3 / 5, maxBestSimilarity = 3 / 5 \<rparr> \<rparr>
   \<and> (\<exists>st. similarityLoop cosine_spec exGetI18n
            [exEntry ''A'' ''A'' ''a/A.jsx'' [1, 0], exEntry ''B'' ''B'' ''b/B.jsx'' exFar] exConfig
            = Inr st
          \<and> st_evaluatedPairs st = 1 \<and> st_similaritySum st = 3 / 5
          \<and> st_maxSimilarity st = 3 / 5
          \<and> map_of (st_bestByComponent st) ''A'' = Some (3 / 5))"
proof -
  let ?es = "[exEntry ''A'' ''A'' ''a/A.jsx'' [1, 0], exEntry ''B'' ''B'' ''b/B.jsx'' exFar]"
  have ps: "pairSimilarity cosine_spec ?es (0, Suc 0) = 3 / 5"
    by (simp add: pairSimilarity_def exEntry_def cosine_exFar)
  have tc: "touching ?es ''A'' [(0, Suc 0)] = [(0, Suc 0)]"
    by (simp add: touching_def exEntry_def exComponent_def)
  from aggregates_cover_evaluated_pairs [OF findSimilarities_exFar] obtain st where
    st: "similarityLoop cosine_spec exGetI18n ?es exConfig = Inr st"
      "st_evaluatedPairs st = length (evaluatedOf exConfig ?es (indexPairs (length ?es)))"
      "st_similaritySum st
         = sum_list (map (pairSimilarity cosine_spec ?es)
                      (evaluatedOf exConfig ?es (indexPairs (length ?es))))"
      "st_maxSimilarity st
         = foldl max 0 (map (pairSimilarity cosine_spec ?es)
                         (evaluatedOf exConfig ?es (indexPairs (length ?es))))"
      "\<forall>k. map_of (st_bestByComponent st) k
           = (if 0 < foldl max 0 (map (pairSimilarity cosine_spec ?es)
                       (touching ?es k (evaluatedOf exConfig ?es (indexPairs (length ?es)))))
              then Some (foldl max 0 (map (pairSimilarity cosine_spec ?es)
                       (touching ?es k (evaluatedOf exConfig ?es (indexPairs (length ?es))))))
              else None)"
    by blast
  from st(2) have a: "st_evaluatedPairs st = 1"
    unfolding evaluatedOf_exFar by simp
  from st(3) have b: "st_similaritySum st = 3 / 5"
    unfolding evaluatedOf_exFar by (simp add: ps)
  from st(4) have c: "st_maxSimilarity st = 3 / 5"
    unfolding evaluatedOf_exFar by (simp add: ps)
  from st(5) have "map_of (st_bestByComponent st) ''A''
           = (if 0 < foldl max 0 (map (pairSimilarity cosine_spec ?es)
                       (touching ?es ''A'' (evaluatedOf exConfig ?es (indexPairs (length ?es)))))
              then Some (foldl max 0 (map (pairSimilarity cosine_spec ?es)
                       (touching ?es ''A'' (evaluatedOf exConfig ?es (indexPairs (length ?es))))))
              else None)"
    by (rule spec)
  then have d: "map_of (st_bestByComponent st) ''A'' = Some (3 / 5)"
    unfolding evaluatedOf_exFar tc by (simp add: ps)
  from st(1) a b c d findSimilarities_exFar show ?thesis
    by blast
qed

section \<open>Determinism of the similarity engine\<close>

lemma conforming_unique:
  assumes "sortConforming jsSort"
  shows "jsSort ps = sortBySimilarityDesc ps"
proof -
  from assms have m: "mset (jsSort ps) = mset ps"
    and s: "sorted_wrt (\<lambda>p q. pair_similarity p \<ge> pair_similarity q) (jsSort ps)"
    and st: "\<And>k. filter (\<lambda>p. pair_similarity p = k) (jsSort ps)
                = filter (\<lambda>p. pair_similarity p = k) ps"
    by (simp_all add: sortConforming_def)
  have sorted: "sorted (map (\<lambda>p. - pair_similarity p) (jsSort ps))"
    using s by (simp add: sorted_map)
  have e: "\<And>k xs. filter (\<lambda>x. - pair_similarity k = - pair_similarity x) xs
      = filter (\<lambda>p. pair_similarity p = pair_similarity k) xs"
    by (rule filter_cong) auto
  have stable: "\<And>k. k \<in> set (jsSort ps) \<Longrightarrow>
      filter (\<lambda>x. - pair_similarity k = - pair_similarity x) (jsSort ps)
      = filter (\<lambda>x. - pair_similarity k = - pair_similarity x) ps"
    unfolding e by (rule st)
  have "sort_key (\<lambda>p. - pair_similarity p) ps = jsSort ps"
    by (rule properties_for_sort_key [OF m stable sorted])
  then show ?thesis
    by (simp add: sortBySimilarityDesc_def)
qed

lemma conforming_insertion: "sortConforming sortBySimilarityDesc"
proof -
  have "\<And>(ps::pair list) s.
      filter (\<lambda>p. pair_similarity p = s) (sort_key (\<lambda>p. - pair_similarity p) ps)
      = filter (\<lambda>p. pair_similarity p = s) ps"
  proof -
    fix ps :: "pair list" and s
    have "(\<lambda>p. pair_similarity p = s) = (\<lambda>p. - pair_similarity p = - s)"
      by auto
    then show "filter (\<lambda>p. pair_similarity p = s) (sort_key (\<lambda>p. - pair_similarity p) ps)
      = filter (\<lambda>p. pair_similarity p = s) ps"
      using sort_key_stable [of "\<lambda>p. - pair_similarity p" "- s" ps] by simp
  qed
  moreover have "\<And>ps::pair list. sorted_wrt (\<lambda>p q. pair_similarity p \<ge> pair_similarity q)
      (sort_key (\<lambda>p. - pair_similarity p) ps)"
  proof -
    fix ps :: "pair list"
    have "sorted (map (\<lambda>p. - pair_similarity p) (sort_key (\<lambda>p. - pair_similarity p) ps))"
      by (rule sorted_sort_key)
    then show "sorted_wrt (\<lambda>p q. pair_similarity p \<ge> pair_similarity q)
      (sort_key (\<lambda>p. - pair_similarity p) ps)"
      by (simp add: sorted_map)
  qed
  ultimately show ?thesis
    by (simp add: sortConforming_def sortBySimilarityDesc_def)
qed

lemma conforming_reversal: "sortConforming sortByReversal"
proof -
  have a: "\<And>ps. mset (sortByReversal ps) = mset ps"
    by (simp add: sortByReversal_def)
  have b: "\<And>ps. sorted_wrt (\<lambda>p q. pair_similarity p \<ge> pair_similarity q) (sortByReversal ps)"
  proof -
    fix ps :: "pair list"
    have "sorted (map pair_similarity (sort_key pair_similarity (rev ps)))"
      by (rule sorted_sort_key)
    then have "sorted_wrt (\<lambda>p q. pair_similarity p \<le> pair_similarity q)
        (sort_key pair_similarity (rev ps))"
      by (simp add: sorted_map)
    then show "sorted_wrt (\<lambda>p q. pair_similarity p \<ge> pair_similarity q) (sortByReversal ps)"
      by (simp add: sortByReversal_def sorted_wrt_rev)
  qed
  have c: "\<And>ps s. filter (\<lambda>p. pair_similarity p = s) (sortByReversal ps)
      = filter (\<lambda>p. pair_similarity p = s) ps"
    by (simp add: sortByReversal_def rev_filter [symmetric] sort_key_stable)
  from a b c show ?thesis
    by (simp add: sortConforming_def)
qed

text \<open>
  A sort that only orders is determined, too, on a list without ties: each similarity
  then selects one pair.
\<close>

lemma filter_single:
  assumes "distinct (map f xs)" and "k \<in> set xs"
  shows "filter (\<lambda>x. f k = f x) xs = [k]"
  using assms
proof (induction xs)
  case Nil
  then show ?case by simp
next
  case (Cons x xs)
  show ?case
  proof (cases "k = x")
    case True
    from Cons.prems(1) have "\<And>y. y \<in> set xs \<Longrightarrow> f x \<noteq> f y"
      by auto
    then have "filter (\<lambda>y. f x = f y) xs = []"
      by (simp add: filter_empty_conv)
    with True show ?thesis
      by simp
  next
    case False
    with Cons.prems have k: "k \<in> set xs" and d: "distinct (map f xs)" and "f x \<notin> f ` set xs"
      by auto
    then have "f k \<noteq> f x"
      by (metis imageI)
    with Cons.IH [OF d k] show ?thesis
      by simp
  qed
qed

lemma ordered_unique_untied:
  assumes "sortOrdered jsSort" and "distinct (map pair_similarity ps)"
  shows "jsSort ps = sortBySimilarityDesc ps"
proof -
  let ?key = "\<lambda>p. - pair_similarity p"
  from assms(1) have m: "mset (jsSort ps) = mset ps"
    and s: "sorted_wrt (\<lambda>p q. pair_similarity p \<ge> pair_similarity q) (jsSort ps)"
    by (simp_all add: sortOrdered_def)
  have sorted: "sorted (map ?key (jsSort ps))"
    using s by (simp add: sorted_map)
  from assms(2) have d: "distinct (map ?key ps)"
    by (simp add: distinct_map inj_on_def)
  from m have "mset (map ?key (jsSort ps)) = mset (map ?key ps)"
    by simp
  with d have d': "distinct (map ?key (jsSort ps))"
    by (metis mset_eq_imp_distinct_iff)
  from m have set: "set (jsSort ps) = set ps"
    by (rule mset_eq_setD)
  have stable: "\<And>k. k \<in> set (jsSort ps) \<Longrightarrow>
      filter (\<lambda>x. ?key k = ?key x) (jsSort ps) = filter (\<lambda>x. ?key k = ?key x) ps"
    using filter_single [OF d, of _] filter_single [OF d', of _] set by simp
  have "sort_key ?key ps = jsSort ps"
    by (rule properties_for_sort_key [OF m stable sorted])
  then show ?thesis
    by (simp add: sortBySimilarityDesc_def)
qed

lemma findSimilarities_with_scorecard:
  "map_sum id scorecard (findSimilarities_with jsSort cosine getI18n entries cfg)
     = map_sum id
         (\<lambda>st. buildScorecard (st_bestByComponent st) (st_evaluatedPairs st)
                 (st_similaritySum st) (st_maxSimilarity st) (st_suppressedPairs st)
                 (st_suppressionReasons st))
         (similarityLoop cosine getI18n entries cfg)"
  by (cases "similarityLoop cosine getI18n entries cfg")
     (simp_all add: findSimilarities_with_def bindE_def Let_def)

lemma findSimilarities_with_cong:
  assumes "\<And>st. similarityLoop cosine getI18n entries cfg = Inr st \<Longrightarrow>
             sortA (st_pairs st) = sortB (st_pairs st)"
  shows "findSimilarities_with sortA cosine getI18n entries cfg
       = findSimilarities_with sortB cosine getI18n entries cfg"
  using assms
  by (cases "similarityLoop cosine getI18n entries cfg")
     (simp_all add: findSimilarities_with_def bindE_def Let_def limitMatches_with_def
        split: option.splits)

text \<open>
  Claim C7. \<open>findSimilarities\<close> reads nothing besides its arguments (no clock, no random
  number, no file); the one step whose result the source does not spell out is the
  engine's \<open>Array.prototype.sort\<close>, so each of the two invocations is given a sort of its
  own. On identical entry lists and identical configurations the two invocations
  return identical pairs and scorecards, or throw the same error, when both sorts meet
  the requirements of ECMAScript, stability among them: a stable sort on the similarity
  leaves no choice. Stability has been required since ECMAScript 2019, and the source
  uses \<open>?.\<close> and \<open>??\<close>, syntax of ECMAScript 2020. (The other sort of the source, on the
  tag counts in \<open>dominantTag\<close>, is modelled by the stable sort these requirements
  determine.) Two more facts say how far the result depends on the sort at all. If the
  sorts are only known to order, the results are still identical when no two pairs the
  loop accepted record the same similarity. And the scorecard is the same whatever the
  two sorts do: it is built from what the loop accumulated, not from the sorted list.
\<close>

theorem findSimilarities_deterministic:
  assumes "entries' = entries" and "cfg' = cfg"
  shows "(sortConforming sortA \<and> sortConforming sortB \<longrightarrow>
            findSimilarities_with sortA cosine getI18n entries cfg
              = findSimilarities_with sortB cosine getI18n entries' cfg')
       \<and> (sortOrdered sortA \<and> sortOrdered sortB
            \<and> (\<forall>st. similarityLoop cosine getI18n entries cfg = Inr st
                   \<longrightarrow> distinct (map pair_similarity (st_pairs st)))
          \<longrightarrow> findSimilarities_with sortA cosine getI18n entries cfg
                = findSimilarities_with sortB cosine getI18n entries' cfg')
       \<and> map_sum id scorecard (findSimilarities_with sortA cosine getI18n entries cfg)
           = map_sum id scorecard (findSimilarities_with sortB cosine getI18n entries' cfg')"
proof (intro conjI impI)
  assume "sortConforming sortA \<and> sortConforming sortB"
  then have "sortA = sortBySimilarityDesc" "sortB = sortBySimilarityDesc"
    using conforming_unique by auto
  with assms show "findSimilarities_with sortA cosine getI18n entries cfg
              = findSimilarities_with sortB cosine getI18n entries' cfg'"
    by simp
next
  assume a: "sortOrdered sortA \<and> sortOrdered sortB
            \<and> (\<forall>st. similarityLoop cosine getI18n entries cfg = Inr st
                   \<longrightarrow> distinct (map pair_similarity (st_pairs st)))"
  have "findSimilarities_with sortA cosine getI18n entries cfg
              = findSimilarities_with sortB cosine getI18n entries cfg"
  proof (rule findSimilarities_with_cong)
    fix st
    assume "similarityLoop cosine getI18n entries cfg = Inr st"
    with a have d: "distinct (map pair_similarity (st_pairs st))"
      by blast
    from a have oa: "sortOrdered sortA" and ob: "sortOrdered sortB"
      by simp_all
    from ordered_unique_untied [OF oa d] ordered_unique_untied [OF ob d]
    show "sortA (st_pairs st) = sortB (st_pairs st)"
      by simp
  qed
  with assms show "findSimilarities_with sortA cosine getI18n entries cfg
              = findSimilarities_with sortB cosine getI18n entries' cfg'"
    by simp
next
  show "map_sum id scorecard (findSimilarities_with sortA cosine getI18n entries cfg)
           = map_sum id scorecard (findSimilarities_with sortB cosine getI18n entries' cfg')"
    unfolding assms by (simp only: findSimilarities_with_scorecard)
qed

text \<open>
  A run that has ties, pairs out of order and a limit that drops pairs: the four
  entries, at most two pairs for a unit.
\<close>

lemma cosine_exNear_unit: "cosine_spec exNear [1, 0] = 9999 / 10001"
  using l2norm_unit l2norm_exNear
  by (simp add: cosine_spec_def) (simp add: exNear_def)

lemma cosine_exNear_self: "cosine_spec exNear exNear = 1"
proof -
  have "(9999 / 10001) * (9999 / 10001) + (200 / 10001) * (200 / 10001) = (1::real)"
    by simp
  then have "sum_list (map (\<lambda>(x, y). x * y) (zip exNear exNear)) = 1"
    by (simp add: exNear_def)
  with l2norm_exNear show ?thesis
    by (simp add: cosine_spec_def) (simp add: exNear_def)
qed

lemma toFixed4_mean: "toFixed4 (29999 / 30003) = 9999 / 10000"
proof -
  have "round ((29999 / 30003 :: real) * 10000) = 9999"
    by (simp add: round_def floor_eq_iff)
  then show ?thesis
    by (simp add: toFixed4_def)
qed

lemma indexPairs_exFour:
  "indexPairs (length exFour) = [(0, 1), (0, 2), (0, 3), (1, 2), (1, 3), (2, 3)]"
  by (simp add: indexPairs_def exFour_def upt_rec)

lemma processPair_exLimit:
  assumes "cosine_spec va vb = 1 \<or> cosine_spec va vb = 9999 / 10001"
  shows "processPair cosine_spec exGetI18n exLimitConfig
           (exEntry ia na pa va) (exEntry ib nb pb vb) st
     = Inr ((recordSimilarity (exEntry ia na pa va) (exEntry ib nb pb vb) (cosine_spec va vb) st)
              \<lparr> st_pairs := st_pairs st @ [exPair ia ib (toFixed4 (cosine_spec va vb))] \<rparr>)"
proof -
  have c: "compareGlobs exLimitConfig = Some []" "disableAnalyses exLimitConfig = Some []"
    "similarityThreshold exLimitConfig = 0.85" "maxSimilarityThreshold exLimitConfig = Some 1"
    "highSimilarityThreshold exLimitConfig = 0.9"
    by (simp_all add: exLimitConfig_def exConfig_def)
  have s: "\<not> shouldSkipByPath (Some pa) (Some pb) exLimitConfig"
    by (simp add: shouldSkipByPath_def exLimitConfig_def exConfig_def)
  from assms have t: "similarityThreshold exLimitConfig \<le> cosine_spec va vb"
    and m: "cosine_spec va vb
             - (case maxSimilarityThreshold exLimitConfig of None \<Rightarrow> 1 | Some m \<Rightarrow> m) \<le> epsilon"
    and h: "highSimilarityThreshold exLimitConfig \<le> cosine_spec va vb"
    unfolding c by (auto simp: epsilon_def)
  from processPair_exEntry [OF c(1,2) t m s, of ia na ib nb st] h show ?thesis
    by (simp add: exPair_def)
qed

lemma similarityLoop_exFour:
  "similarityLoop cosine_spec exGetI18n exFour exLimitConfig
     = Inr \<lparr> st_pairs =
               [exPair ''A'' ''B'' (4999 / 5000), exPair ''A'' ''C'' 1,
                exPair ''A'' ''D'' (4999 / 5000), exPair ''B'' ''C'' (4999 / 5000),
                exPair ''B'' ''D'' 1, exPair ''C'' ''D'' (4999 / 5000)],
             st_bestByComponent = [(''A'', 1), (''B'', 1), (''C'', 1), (''D'', 1)],
             st_evaluatedPairs = 6, st_similaritySum = 59998 / 10001,
             st_maxSimilarity = 1, st_suppressedPairs = 0, st_suppressionReasons = [] \<rparr>"
proof -
  note cos = cosine_exNear cosine_exNear_unit cosine_exNear_self cosine_spec_unit
  have e: "exFour ! 0 = exEntry ''A'' ''A'' ''a/A.jsx'' [1, 0]"
    "exFour ! Suc 0 = exEntry ''B'' ''B'' ''b/B.jsx'' exNear"
    "exFour ! 2 = exEntry ''C'' ''C'' ''c/C.jsx'' [1, 0]"
    "exFour ! 3 = exEntry ''D'' ''D'' ''d/D.jsx'' exNear"
    by (simp_all add: exFour_def)
  have p: "\<And>ia na pa ib nb pb st.
      processPair cosine_spec exGetI18n exLimitConfig
           (exEntry ia na pa [1, 0]) (exEntry ib nb pb exNear) st
        = Inr ((recordSimilarity (exEntry ia na pa [1, 0]) (exEntry ib nb pb exNear)
                  (9999 / 10001) st)
              \<lparr> st_pairs := st_pairs st @ [exPair ia ib (4999 / 5000)] \<rparr>)"
    "\<And>ia na pa ib nb pb st.
      processPair cosine_spec exGetI18n exLimitConfig
           (exEntry ia na pa exNear) (exEntry ib nb pb [1, 0]) st
        = Inr ((recordSimilarity (exEntry ia na pa exNear) (exEntry ib nb pb [1, 0])
                  (9999 / 10001) st)
              \<lparr> st_pairs := st_pairs st @ [exPair ia ib (4999 / 5000)] \<rparr>)"
    "\<And>ia na pa ib nb pb st.
      processPair cosine_spec exGetI18n exLimitConfig
           (exEntry ia na pa [1, 0]) (exEntry ib nb pb [1, 0]) st
        = Inr ((recordSimilarity (exEntry ia na pa [1, 0]) (exEntry ib nb pb [1, 0]) 1 st)
              \<lparr> st_pairs := st_pairs st @ [exPair ia ib 1] \<rparr>)"
    "\<And>ia na pa ib nb pb st.
      processPair cosine_spec exGetI18n exLimitConfig
           (exEntry ia na pa exNear) (exEntry ib nb pb exNear) st
        = Inr ((recordSimilarity (exEntry ia na pa exNear) (exEntry ib nb pb exNear) 1 st)
              \<lparr> st_pairs := st_pairs st @ [exPair ia ib 1] \<rparr>)"
    using processPair_exLimit [of "[1, 0]" exNear] processPair_exLimit [of exNear "[1, 0]"]
      processPair_exLimit [of "[1, 0]" "[1, 0]"] processPair_exLimit [of exNear exNear]
    by (simp_all add: cos toFixed4_exNear toFixed4_1)
  have ids: "\<And>i n pth v. comp_id (component (exEntry i n pth v)) = i"
    by (simp add: exEntry_def exComponent_def)
  show ?thesis
    unfolding similarityLoop_def indexPairs_exFour
    by (simp add: loopBody_def e p recordSimilarity_def ids trackBestSimilarity_def bestOr0_def
        initState_def)
qed

lemma exPair_fields [simp]:
  "pair_a (exPair a b s) = a" "pair_b (exPair a b s) = b" "pair_similarity (exPair a b s) = s"
  by (simp_all add: exPair_def)

lemma exPair_eq_iff: "exPair a b s = exPair a' b' s' \<longleftrightarrow> a = a' \<and> b = b' \<and> s = s'"
  by (auto simp: exPair_def)

lemma buildScorecard_exFour:
  "buildScorecard [(''A'', 1), (''B'', 1), (''C'', 1), (''D'', 1)] 6 (59998 / 10001) 1 0 []
     = \<lparr> meanSimilarity = 9999 / 10000, maxSimilarity = 1, evaluatedPairs = 6,
         coveredComponents = 4, suppressedPairs = 0, suppressionReasons = [],
         minBestSimilarity = 1, maxBestSimilarity = 1 \<rparr>"
proof -
  have "(59998 / 10001 :: real) / 6 = 29999 / 30003"
    by simp
  then show ?thesis
    by (simp add: buildScorecard_def toFixed4_mean toFixed4_1)
qed

lemma findSimilarities_exFour:
  "findSimilarities_with sortBySimilarityDesc cosine_spec exGetI18n exFour exLimitConfig
     = Inr \<lparr> pairs = [exPair ''A'' ''C'' 1, exPair ''B'' ''D'' 1,
                      exPair ''A'' ''B'' (4999 / 5000), exPair ''C'' ''D'' (4999 / 5000)],
             scorecard =
               \<lparr> meanSimilarity = 9999 / 10000, maxSimilarity = 1, evaluatedPairs = 6,
                 coveredComponents = 4, suppressedPairs = 0, suppressionReasons = [],
                 minBestSimilarity = 1, maxBestSimilarity = 1 \<rparr> \<rparr>"
proof -
  have l: "limit exLimitConfig = Some 2"
    by (simp add: exLimitConfig_def exConfig_def)
  have s: "sortBySimilarityDesc
       [exPair ''A'' ''B'' (4999 / 5000), exPair ''A'' ''C'' 1,
        exPair ''A'' ''D'' (4999 / 5000), exPair ''B'' ''C'' (4999 / 5000),
        exPair ''B'' ''D'' 1, exPair ''C'' ''D'' (4999 / 5000)]
     = [exPair ''A'' ''C'' 1, exPair ''B'' ''D'' 1, exPair ''A'' ''B'' (4999 / 5000),
        exPair ''A'' ''D'' (4999 / 5000), exPair ''B'' ''C'' (4999 / 5000),
        exPair ''C'' ''D'' (4999 / 5000)]"
    by (simp add: sortBySimilarityDesc_def)
  have f: "limitFilter 2 (\<lambda>k. 0)
       [exPair ''A'' ''C'' 1, exPair ''B'' ''D'' 1, exPair ''A'' ''B'' (4999 / 5000),
        exPair ''A'' ''D'' (4999 / 5000), exPair ''B'' ''C'' (4999 / 5000),
        exPair ''C'' ''D'' (4999 / 5000)]
     = [exPair ''A'' ''C'' 1, exPair ''B'' ''D'' 1, exPair ''A'' ''B'' (4999 / 5000),
        exPair ''C'' ''D'' (4999 / 5000)]"
    by (simp add: Let_def)
  show ?thesis
    unfolding findSimilarities_with_def similarityLoop_exFour
    by (simp add: bindE_def l limitMatches_with_def s f buildScorecard_exFour)
qed

lemma findSimilarities_exFour_unstable:
  "findSimilarities_with sortTiesReversed cosine_spec exGetI18n exFour exLimitConfig
     = Inr \<lparr> pairs = [exPair ''B'' ''D'' 1, exPair ''A'' ''C'' 1,
                      exPair ''C'' ''D'' (4999 / 5000), exPair ''A'' ''B'' (4999 / 5000)],
             scorecard =
               \<lparr> meanSimilarity = 9999 / 10000, maxSimilarity = 1, evaluatedPairs = 6,
                 coveredComponents = 4, suppressedPairs = 0, suppressionReasons = [],
                 minBestSimilarity = 1, maxBestSimilarity = 1 \<rparr> \<rparr>"
proof -
  have l: "limit exLimitConfig = Some 2"
    by (simp add: exLimitConfig_def exConfig_def)
  have s: "sortTiesReversed
       [exPair ''A'' ''B'' (4999 / 5000), exPair ''A'' ''C'' 1,
        exPair ''A'' ''D'' (4999 / 5000), exPair ''B'' ''C'' (4999 / 5000),
        exPair ''B'' ''D'' 1, exPair ''C'' ''D'' (4999 / 5000)]
     = [exPair ''B'' ''D'' 1, exPair ''A'' ''C'' 1, exPair ''C'' ''D'' (4999 / 5000),
        exPair ''B'' ''C'' (4999 / 5000), exPair ''A'' ''D'' (4999 / 5000),
        exPair ''A'' ''B'' (4999 / 5000)]"
    by (simp add: sortTiesReversed_def)
  have f: "limitFilter 2 (\<lambda>k. 0)
       [exPair ''B'' ''D'' 1, exPair ''A'' ''C'' 1, exPair ''C'' ''D'' (4999 / 5000),
        exPair ''B'' ''C'' (4999 / 5000), exPair ''A'' ''D'' (4999 / 5000),
        exPair ''A'' ''B'' (4999 / 5000)]
     = [exPair ''B'' ''D'' 1, exPair ''A'' ''C'' 1, exPair ''C'' ''D'' (4999 / 5000),
        exPair ''A'' ''B'' (4999 / 5000)]"
    by (simp add: Let_def)
  show ?thesis
    unfolding findSimilarities_with_def similarityLoop_exFour
    by (simp add: bindE_def l limitMatches_with_def s f buildScorecard_exFour)
qed

lemma conforming_ordered: "sortConforming jsSort \<Longrightarrow> sortOrdered jsSort"
  by (simp add: sortConforming_def sortOrdered_def)

lemma ordered_ties_reversed: "sortOrdered sortTiesReversed"
proof -
  have "\<And>ps::pair list. sorted_wrt (\<lambda>p q. pair_similarity p \<ge> pair_similarity q)
      (sortTiesReversed ps)"
  proof -
    fix ps :: "pair list"
    have "sorted (map pair_similarity (sort_key pair_similarity ps))"
      by (rule sorted_sort_key)
    then have "sorted_wrt (\<lambda>p q. pair_similarity p \<le> pair_similarity q)
        (sort_key pair_similarity ps)"
      by (simp add: sorted_map)
    then show "sorted_wrt (\<lambda>p q. pair_similarity p \<ge> pair_similarity q) (sortTiesReversed ps)"
      by (simp add: sortTiesReversed_def sorted_wrt_rev)
  qed
  then show ?thesis
    by (simp add: sortOrdered_def sortTiesReversed_def)
qed

theorem findSimilarities_deterministic_witness:
  "findSimilarities_with sortBySimilarityDesc cosine_spec exGetI18n exFour exLimitConfig
     = findSimilarities_with sortByReversal cosine_spec exGetI18n exFour exLimitConfig
   \<and> findSimilarities_with sortByReversal cosine_spec exGetI18n exFour exLimitConfig
     = Inr \<lparr> pairs = [exPair ''A'' ''C'' 1, exPair ''B'' ''D'' 1,
                      exPair ''A'' ''B'' (4999 / 5000), exPair ''C'' ''D'' (4999 / 5000)],
             scorecard =
               \<lparr> meanSimilarity = 9999 / 10000, maxSimilarity = 1, evaluatedPairs = 6,
                 coveredComponents = 4, suppressedPairs = 0, suppressionReasons = [],
                 minBestSimilarity = 1, maxBestSimilarity = 1 \<rparr> \<rparr>
   \<and> findSimilarities_with sortTiesReversed cosine_spec exGetI18n
        [exEntry ''A'' ''A'' ''a/A.jsx'' [1, 0], exEntry ''B'' ''B'' ''b/B.jsx'' exNear]
        exStrictConfig
     = findSimilarities_with sortBySimilarityDesc cosine_spec exGetI18n
        [exEntry ''A'' ''A'' ''a/A.jsx'' [1, 0], exEntry ''B'' ''B'' ''b/B.jsx'' exNear]
        exStrictConfig
   \<and> map_sum id scorecard
        (findSimilarities_with sortTiesReversed cosine_spec exGetI18n exFour exLimitConfig)
     = map_sum id scorecard
        (findSimilarities_with sortBySimilarityDesc cosine_spec exGetI18n exFour exLimitConfig)"
proof -
  note stable = findSimilarities_deterministic [OF refl refl, of sortBySimilarityDesc
      sortByReversal cosine_spec exGetI18n exFour exLimitConfig]
  note untied = findSimilarities_deterministic [OF refl refl, of sortTiesReversed
      sortBySimilarityDesc cosine_spec exGetI18n
      "[exEntry ''A'' ''A'' ''a/A.jsx'' [1, 0], exEntry ''B'' ''B'' ''b/B.jsx'' exNear]"
      exStrictConfig]
  note any = findSimilarities_deterministic [OF refl refl, of sortTiesReversed
      sortBySimilarityDesc cosine_spec exGetI18n exFour exLimitConfig]
  from stable conforming_insertion conforming_reversal
  have a: "findSimilarities_with sortBySimilarityDesc cosine_spec exGetI18n exFour exLimitConfig
     = findSimilarities_with sortByReversal cosine_spec exGetI18n exFour exLimitConfig"
    by blast
  from a findSimilarities_exFour
  have b: "findSimilarities_with sortByReversal cosine_spec exGetI18n exFour exLimitConfig
     = Inr \<lparr> pairs = [exPair ''A'' ''C'' 1, exPair ''B'' ''D'' 1,
                      exPair ''A'' ''B'' (4999 / 5000), exPair ''C'' ''D'' (4999 / 5000)],
             scorecard =
               \<lparr> meanSimilarity = 9999 / 10000, maxSimilarity = 1, evaluatedPairs = 6,
                 coveredComponents = 4, suppressedPairs = 0, suppressionReasons = [],
                 minBestSimilarity = 1, maxBestSimilarity = 1 \<rparr> \<rparr>"
    by simp
  have t: "(9999 / 10001 :: real) \<ge> 0.99980001"
    by simp
  have d: "\<forall>st. similarityLoop cosine_spec exGetI18n
        [exEntry ''A'' ''A'' ''a/A.jsx'' [1, 0], exEntry ''B'' ''B'' ''b/B.jsx'' exNear]
        exStrictConfig = Inr st \<longrightarrow> distinct (map pair_similarity (st_pairs st))"
    unfolding exStrictConfig_def similarityLoop_exNear_at [OF t] by simp
  from untied ordered_ties_reversed conforming_ordered [OF conforming_insertion] d
  have c: "findSimilarities_with sortTiesReversed cosine_spec exGetI18n
        [exEntry ''A'' ''A'' ''a/A.jsx'' [1, 0], exEntry ''B'' ''B'' ''b/B.jsx'' exNear]
        exStrictConfig
     = findSimilarities_with sortBySimilarityDesc cosine_spec exGetI18n
        [exEntry ''A'' ''A'' ''a/A.jsx'' [1, 0], exEntry ''B'' ''B'' ''b/B.jsx'' exNear]
        exStrictConfig"
    by blast
  from any have e: "map_sum id scorecard
        (findSimilarities_with sortTiesReversed cosine_spec exGetI18n exFour exLimitConfig)
     = map_sum id scorecard
        (findSimilarities_with sortBySimilarityDesc cosine_spec exGetI18n exFour exLimitConfig)"
    by blast
  from a b c e show ?thesis
    by (intro conjI)
qed

text \<open>
  Stability is needed. On the four entries the sort that reverses ties gives the same
  scorecard and other pairs: the two pairs of similarity 1 change places, and so do the
  two of similarity 0.9998 that the limit lets through.
\<close>

lemma unstable_sort_changes_pairs:
  "findSimilarities_with sortTiesReversed cosine_spec exGetI18n exFour exLimitConfig
     \<noteq> findSimilarities_with sortBySimilarityDesc cosine_spec exGetI18n exFour exLimitConfig
   \<and> sortOrdered sortTiesReversed \<and> \<not> sortConforming sortTiesReversed"
proof -
  have a: "findSimilarities_with sortTiesReversed cosine_spec exGetI18n exFour exLimitConfig
     \<noteq> findSimilarities_with sortBySimilarityDesc cosine_spec exGetI18n exFour exLimitConfig"
    unfolding findSimilarities_exFour findSimilarities_exFour_unstable
    by (simp add: exPair_eq_iff)
  have "\<not> sortConforming sortTiesReversed"
  proof
    assume "sortConforming sortTiesReversed"
    then have "sortTiesReversed = sortBySimilarityDesc"
      using conforming_unique by auto
    with a show False
      by simp
  qed
  with a ordered_ties_reversed show ?thesis
    by simp
qed

end
